theory Spec2Isabelle
  imports Main
begin

section \<open>The artifacts manager of image-factory (internal/artifacts/manager.go)\<close>

text \<open>
  The manager sits between request handlers and the machinery that pulls and extracts
  images. Each public operation validates its key, probes a cache (the filesystem or an
  in-memory map) and, on a miss, routes one fetch through a \<open>singleflight.Group\<close> and
  waits in a \<open>select\<close> for either the fetch's result or the caller's context.

  The embedding follows the Go text statement by statement. An operation that can block
  is cut at its \<open>select\<close>: \<open>X_begin\<close> is the code up to and including \<open>DoChan\<close>,
  \<open>X_resume\<close> is the code from the \<open>select\<close> on, and \<open>X\<close> runs both for a caller
  that is alone. Between the two halves other callers and the running fetch may act, and
  so they may between the cache probe and the \<open>DoChan\<close> of a first half: no lock is
  held across the two. The relation \<open>step\<close> below therefore takes every \<open>os.Stat\<close>
  and every \<open>DoChan\<close> as a step of its own, and \<open>X_probe\<close> and \<open>X_start\<close> give
  the two statements of a first half separately. The two mutexes guard single reads,
  which are atomic.
\<close>

subsection \<open>Data\<close>

text \<open>\<open>type Arch string\<close> and \<open>type Kind string\<close> are declared outside this file; the
  manager only converts them with \<open>string(arch)\<close> and \<open>string(kind)\<close>.\<close>

type_synonym Arch = string
type_synonym Kind = string

text \<open>Modelled from the spec: the struct \<open>ExtensionRef\<close> is declared outside
  manager.go. Section 3 of the specification describes it as a name plus a content digest;
  the manager reads the field \<open>Digest\<close> only.\<close>

record ExtensionRef =
  TaggedReference :: string
  Digest :: string

text \<open>\<open>Options\<close>: the fields the manager reads. \<open>TalosVersionRecheckInterval\<close> is a
  \<open>time.Duration\<close>, a count of nanoseconds.\<close>

record 'v Options =
  MinVersion :: 'v
  TalosVersionRecheckInterval :: int

text \<open>The fields of \<open>Manager\<close> that are set once by \<open>NewManager\<close> and never written
  again. \<open>'v\<close> is \<open>semver.Version\<close> and \<open>'r\<close> is \<open>name.Registry\<close>, both
  types of libraries outside the repository. The logger and the pullers are used by the
  fetchers only.\<close>

record ('v, 'r) Manager =
  options :: "'v Options"
  storagePath :: string
  flavorsPath :: string
  imageRegistry :: 'r

text \<open>Library functions the manager calls, taken as parameters:
  \<open>semver.Parse\<close>, \<open>semver.ParseTolerant\<close>, \<open>Version.LT\<close>, \<open>Version.String\<close>
  (also what \<open>%s\<close> prints), \<open>filepath.Join\<close>, and the chain
  \<open>registry.Repo(repo).Tag(tag).String()\<close> of go-containerregistry's \<open>name\<close> package.
  \<open>InstallerImage\<close> is a string constant of the package declared outside manager.go.\<close>

record ('v, 'r) lib =
  semverParse :: "string \<Rightarrow> string + 'v"
  semverParseTolerant :: "string \<Rightarrow> string + 'v"
  versionLT :: "'v \<Rightarrow> 'v \<Rightarrow> bool"
  versionStr :: "'v \<Rightarrow> string"
  filepathJoin :: "string list \<Rightarrow> string"
  repoTagString :: "'r \<Rightarrow> string \<Rightarrow> string \<Rightarrow> string"
  InstallerImage :: string

text \<open>What the fetchers can read and write: the filesystem as \<open>os.Stat\<close> sees it
  (\<open>None\<close>: the call succeeds, \<open>Some errno\<close>: it fails), and the mutable fields of
  \<open>Manager\<close>. A Go map read of a missing key yields the zero value; \<open>time.Time\<close> is
  a count of nanoseconds.\<close>

record 'v store =
  statErr :: "string \<Rightarrow> nat option"
  officialExtensions :: "string \<rightharpoonup> ExtensionRef list"
  talosVersions :: "'v list"
  talosVersionsTimestamp :: int

text \<open>The closures handed to \<open>DoChan\<close>.\<close>

datatype call =
    FetchImager string
  | FetchTalosVersions
  | FetchOfficialExtensions string
  | FetchExtensionImage Arch ExtensionRef string

text \<open>The fetchers \<open>m.fetchImager\<close>, \<open>m.fetchTalosVersions\<close>,
  \<open>m.fetchOfficialExtensions\<close> and \<open>m.fetchExtensionImage\<close> are methods defined outside
  manager.go; they are parameters here. Each gets the current time and the store and
  returns its error (\<open>None\<close> is \<open>nil\<close>) and the store it leaves behind.\<close>

record 'v fetchers =
  fetchImager :: "string \<Rightarrow> int \<Rightarrow> 'v store \<Rightarrow> string option \<times> 'v store"
  fetchTalosVersions :: "int \<Rightarrow> 'v store \<Rightarrow> string option \<times> 'v store"
  fetchOfficialExtensions :: "string \<Rightarrow> int \<Rightarrow> 'v store \<Rightarrow> string option \<times> 'v store"
  fetchExtensionImage ::
    "Arch \<Rightarrow> ExtensionRef \<Rightarrow> string \<Rightarrow> int \<Rightarrow> 'v store \<Rightarrow> string option \<times> 'v store"

fun run_call :: "'v fetchers \<Rightarrow> call \<Rightarrow> int \<Rightarrow> 'v store \<Rightarrow> string option \<times> 'v store" where
  "run_call F (FetchImager tag) = fetchImager F tag"
| "run_call F FetchTalosVersions = fetchTalosVersions F"
| "run_call F (FetchOfficialExtensions tag) = fetchOfficialExtensions F tag"
| "run_call F (FetchExtensionImage arch ref path) = fetchExtensionImage F arch ref path"

text \<open>What an observer of the manager sees: every \<open>os.Stat\<close> and every fetch that the
  coordinator starts.\<close>

datatype event = EvStat string | EvExec call

text \<open>The whole state: the store, the wall clock, the calls in flight in the
  \<open>singleflight.Group\<close> (by key), and the events so far.\<close>

record 'v world =
  store :: "'v store"
  clock :: int
  sf :: "string \<rightharpoonup> call"
  trace :: "event list"

text \<open>Errors, by origin: the wrapped parse error, the version floor (the message holds
  both versions as printed), the \<open>*PathError\<close> of a failed \<open>os.Stat\<close>, the wrapper
  \<open>failed to find artifact\<close>, an error returned by a fetcher, and \<open>ctx.Err()\<close>.\<close>

datatype ctx_error = Canceled | DeadlineExceeded

datatype error =
    ParseError string
  | VersionTooOld string string
  | StatError string nat
  | NotFound error
  | FetchError string
  | Cancelled ctx_error

text \<open>The outcome of a \<open>select\<close> over the result channel and \<open>ctx.Done()\<close>.\<close>

datatype wake = Result "string option" | CtxDone ctx_error

text \<open>Where an operation stands after its first half: it has returned, or it waits on
  the call in flight under a key, holding the locals it needs afterwards.\<close>

datatype ('a, 'k) phase = Return "error + 'a" | Wait string 'k

subsection \<open>Filesystem, coordinator, time\<close>

definition osStat :: "string \<Rightarrow> 'v world \<Rightarrow> error option \<times> 'v world" where
  "osStat path w =
     (map_option (StatError path) (statErr (store w) path),
      w\<lparr>trace := trace w @ [EvStat path]\<rparr>)"

text \<open>\<open>singleflight.Group.DoChan\<close>: a key already in flight gets one more waiter;
  otherwise the call is registered and started.\<close>

definition DoChan :: "string \<Rightarrow> call \<Rightarrow> 'v world \<Rightarrow> 'v world" where
  "DoChan key c w =
     (case sf w key of
        Some _ \<Rightarrow> w
      | None \<Rightarrow> w\<lparr>sf := (sf w)(key \<mapsto> c), trace := trace w @ [EvExec c]\<rparr>)"

text \<open>The call in flight under a key finishes: its effect on the store becomes visible,
  the key is forgotten, and its error goes to every waiter. Nothing in flight: no such
  step.\<close>

definition sf_finish :: "'v fetchers \<Rightarrow> string \<Rightarrow> 'v world \<Rightarrow> (string option \<times> 'v world) option" where
  "sf_finish F key w =
     (case sf w key of
        None \<Rightarrow> None
      | Some c \<Rightarrow>
          (let (r, s') = run_call F c (clock w) (store w)
           in Some (r, w\<lparr>store := s', sf := (sf w)(key := None)\<rparr>)))"

text \<open>The \<open>select\<close> of a caller that is alone: either the context is done and that
  case is taken (\<open>Some ce\<close>, the fetch stays in flight), or the fetch finishes.\<close>

definition await :: "'v fetchers \<Rightarrow> ctx_error option \<Rightarrow> string \<Rightarrow> 'v world \<Rightarrow> (wake \<times> 'v world) option" where
  "await F cancel key w =
     (case cancel of
        Some ce \<Rightarrow> Some (CtxDone ce, w)
      | None \<Rightarrow> map_option (\<lambda>(r, w'). (Result r, w')) (sf_finish F key w))"

text \<open>\<open>time.Since(t)\<close> is \<open>time.Now().Sub(t)\<close>, which saturates at the bounds of the
  64-bit \<open>Duration\<close>.\<close>

definition timeSince :: "int \<Rightarrow> int \<Rightarrow> int" where
  "timeSince now t =
     (let d = now - t
      in if d < - (2 ^ 63) then - (2 ^ 63) else if 2 ^ 63 - 1 < d then 2 ^ 63 - 1 else d)"

subsection \<open>Get\<close>

text \<open>Lines 124 to 132: build the path, stat it, return it.\<close>

definition Get_path ::
  "('v, 'r) lib \<Rightarrow> ('v, 'r) Manager \<Rightarrow> string \<Rightarrow> Arch \<Rightarrow> Kind \<Rightarrow> 'v world \<Rightarrow> (error + string) \<times> 'v world" where
  "Get_path L m tag arch kind w =
     (let path = filepathJoin L [storagePath m, tag, arch, kind];
          (err, w1) = osStat path w
      in case err of
           Some e \<Rightarrow> (Inl (NotFound e), w1)
         | None \<Rightarrow> (Inr path, w1))"

text \<open>Lines 96 to 111. The local \<open>err\<close> holds the error of the directory's
  \<open>os.Stat\<close> when the fetch is started.\<close>

definition Get_begin ::
  "('v, 'r) lib \<Rightarrow> ('v, 'r) Manager \<Rightarrow> string \<Rightarrow> Arch \<Rightarrow> Kind \<Rightarrow> 'v world
     \<Rightarrow> (string, string \<times> error) phase \<times> 'v world" where
  "Get_begin L m versionString arch kind w =
     (case semverParse L versionString of
        Inl e \<Rightarrow> (Return (Inl (ParseError e)), w)
      | Inr version \<Rightarrow>
          if versionLT L version (MinVersion (options m))
          then (Return (Inl (VersionTooOld (versionStr L version)
                                           (versionStr L (MinVersion (options m))))), w)
          else
            (let tag = ''v'' @ versionStr L version;
                 (err, w1) = osStat (filepathJoin L [storagePath m, tag]) w
             in case err of
                  Some e \<Rightarrow> (Wait tag (tag, e), DoChan tag (FetchImager tag) w1)
                | None \<Rightarrow> (let (r, w2) = Get_path L m tag arch kind w1 in (Return r, w2))))"

text \<open>Lines 114 to 132.\<close>

definition Get_resume ::
  "('v, 'r) lib \<Rightarrow> ('v, 'r) Manager \<Rightarrow> string \<times> error \<Rightarrow> Arch \<Rightarrow> Kind \<Rightarrow> wake \<Rightarrow> 'v world
     \<Rightarrow> (error + string) \<times> 'v world" where
  "Get_resume L m locals arch kind wk w =
     (let (tag, err) = locals
      in case wk of
           Result resultErr \<Rightarrow>
             if resultErr \<noteq> None then (Inl err, w) else Get_path L m tag arch kind w
         | CtxDone ce \<Rightarrow> (Inl (Cancelled ce), w))"

definition Get ::
  "'v fetchers \<Rightarrow> ('v, 'r) lib \<Rightarrow> ('v, 'r) Manager \<Rightarrow> ctx_error option \<Rightarrow> string \<Rightarrow> Arch \<Rightarrow> Kind
     \<Rightarrow> 'v world \<Rightarrow> ((error + string) \<times> 'v world) option" where
  "Get F L m cancel versionString arch kind w =
     (case Get_begin L m versionString arch kind w of
        (Return r, w1) \<Rightarrow> Some (r, w1)
      | (Wait key locals, w1) \<Rightarrow>
          map_option (\<lambda>(wk, w2). Get_resume L m locals arch kind wk w2) (await F cancel key w1))"

subsection \<open>GetInstallerImageRef\<close>

definition GetInstallerImageRef :: "('v, 'r) lib \<Rightarrow> ('v, 'r) Manager \<Rightarrow> string \<Rightarrow> string" where
  "GetInstallerImageRef L m versionString =
     repoTagString L (imageRegistry m) (InstallerImage L) (''v'' @ versionString)"

subsection \<open>GetTalosVersions\<close>

text \<open>Lines 142 to 150. The two fields are read together under \<open>talosVersionsMu\<close>.\<close>

definition GetTalosVersions_begin ::
  "('v, 'r) Manager \<Rightarrow> 'v world \<Rightarrow> ('v list, unit) phase \<times> 'v world" where
  "GetTalosVersions_begin m w =
     (let versions = talosVersions (store w);
          timestamp = talosVersionsTimestamp (store w)
      in if timeSince (clock w) timestamp < TalosVersionRecheckInterval (options m)
         then (Return (Inr versions), w)
         else (Wait ''talos-versions'' (), DoChan ''talos-versions'' FetchTalosVersions w))"

text \<open>Lines 152 to 165.\<close>

definition GetTalosVersions_resume :: "wake \<Rightarrow> 'v world \<Rightarrow> error + 'v list" where
  "GetTalosVersions_resume wk w =
     (case wk of
        CtxDone ce \<Rightarrow> Inl (Cancelled ce)
      | Result resultErr \<Rightarrow>
          (case resultErr of
             Some e \<Rightarrow> Inl (FetchError e)
           | None \<Rightarrow> Inr (talosVersions (store w))))"

definition GetTalosVersions ::
  "'v fetchers \<Rightarrow> ('v, 'r) Manager \<Rightarrow> ctx_error option \<Rightarrow> 'v world
     \<Rightarrow> ((error + 'v list) \<times> 'v world) option" where
  "GetTalosVersions F m cancel w =
     (case GetTalosVersions_begin m w of
        (Return r, w1) \<Rightarrow> Some (r, w1)
      | (Wait key _, w1) \<Rightarrow>
          map_option (\<lambda>(wk, w2). (GetTalosVersions_resume wk w2, w2)) (await F cancel key w1))"

subsection \<open>GetOfficialExtensions\<close>

text \<open>Lines 170 to 191. The map is read under \<open>officialExtensionsMu\<close>.\<close>

definition GetOfficialExtensions_begin ::
  "('v, 'r) lib \<Rightarrow> ('v, 'r) Manager \<Rightarrow> string \<Rightarrow> 'v world
     \<Rightarrow> (ExtensionRef list, string) phase \<times> 'v world" where
  "GetOfficialExtensions_begin L m versionString w =
     (case semverParseTolerant L versionString of
        Inl e \<Rightarrow> (Return (Inl (ParseError e)), w)
      | Inr version \<Rightarrow>
          if versionLT L version (MinVersion (options m))
          then (Return (Inl (VersionTooOld (versionStr L version)
                                           (versionStr L (MinVersion (options m))))), w)
          else
            (let tag = ''v'' @ versionStr L version
             in case officialExtensions (store w) tag of
                  Some extensions \<Rightarrow> (Return (Inr extensions), w)
                | None \<Rightarrow>
                    (Wait (''extensions-'' @ tag) tag,
                     DoChan (''extensions-'' @ tag) (FetchOfficialExtensions tag) w)))"

text \<open>Lines 193 to 206. The second map read takes the value only; a missing key gives
  the nil slice.\<close>

definition GetOfficialExtensions_resume :: "string \<Rightarrow> wake \<Rightarrow> 'v world \<Rightarrow> error + ExtensionRef list" where
  "GetOfficialExtensions_resume tag wk w =
     (case wk of
        CtxDone ce \<Rightarrow> Inl (Cancelled ce)
      | Result resultErr \<Rightarrow>
          (case resultErr of
             Some e \<Rightarrow> Inl (FetchError e)
           | None \<Rightarrow>
               Inr (case officialExtensions (store w) tag of None \<Rightarrow> [] | Some extensions \<Rightarrow> extensions)))"

definition GetOfficialExtensions ::
  "'v fetchers \<Rightarrow> ('v, 'r) lib \<Rightarrow> ('v, 'r) Manager \<Rightarrow> ctx_error option \<Rightarrow> string \<Rightarrow> 'v world
     \<Rightarrow> ((error + ExtensionRef list) \<times> 'v world) option" where
  "GetOfficialExtensions F L m cancel versionString w =
     (case GetOfficialExtensions_begin L m versionString w of
        (Return r, w1) \<Rightarrow> Some (r, w1)
      | (Wait key tag, w1) \<Rightarrow>
          map_option (\<lambda>(wk, w2). (GetOfficialExtensions_resume tag wk w2, w2)) (await F cancel key w1))"

subsection \<open>GetExtensionImage\<close>

text \<open>Lines 211 to 217.\<close>

definition GetExtensionImage_begin ::
  "('v, 'r) lib \<Rightarrow> ('v, 'r) Manager \<Rightarrow> Arch \<Rightarrow> ExtensionRef \<Rightarrow> 'v world
     \<Rightarrow> (string, string) phase \<times> 'v world" where
  "GetExtensionImage_begin L m arch ref w =
     (let tarballPath = filepathJoin L [storagePath m, arch @ ''-'' @ Digest ref @ ''.tar''];
          (err, w1) = osStat tarballPath w
      in case err of
           Some _ \<Rightarrow>
             (Wait tarballPath tarballPath,
              DoChan tarballPath (FetchExtensionImage arch ref tarballPath) w1)
         | None \<Rightarrow> (Return (Inr tarballPath), w1))"

text \<open>Lines 219 to 229.\<close>

definition GetExtensionImage_resume :: "string \<Rightarrow> wake \<Rightarrow> error + string" where
  "GetExtensionImage_resume tarballPath wk =
     (case wk of
        CtxDone ce \<Rightarrow> Inl (Cancelled ce)
      | Result resultErr \<Rightarrow>
          (case resultErr of
             Some e \<Rightarrow> Inl (FetchError e)
           | None \<Rightarrow> Inr tarballPath))"

definition GetExtensionImage ::
  "'v fetchers \<Rightarrow> ('v, 'r) lib \<Rightarrow> ('v, 'r) Manager \<Rightarrow> ctx_error option \<Rightarrow> Arch \<Rightarrow> ExtensionRef
     \<Rightarrow> 'v world \<Rightarrow> ((error + string) \<times> 'v world) option" where
  "GetExtensionImage F L m cancel arch ref w =
     (case GetExtensionImage_begin L m arch ref w of
        (Return r, w1) \<Rightarrow> Some (r, w1)
      | (Wait key tarballPath, w1) \<Rightarrow>
          map_option (\<lambda>(wk, w2). (GetExtensionImage_resume tarballPath wk, w2)) (await F cancel key w1))"

subsection \<open>The two statements of a first half\<close>

text \<open>Lines 170 to 187 of \<open>GetOfficialExtensions\<close>: everything up to the outcome of the
  map read. \<open>Wait key tag\<close> here says that the read missed and that the caller goes on to
  \<open>DoChan\<close> under that key. The read changes nothing.\<close>

definition GetOfficialExtensions_probe ::
  "('v, 'r) lib \<Rightarrow> ('v, 'r) Manager \<Rightarrow> string \<Rightarrow> 'v world \<Rightarrow> (ExtensionRef list, string) phase" where
  "GetOfficialExtensions_probe L m versionString w =
     (case semverParseTolerant L versionString of
        Inl e \<Rightarrow> Return (Inl (ParseError e))
      | Inr version \<Rightarrow>
          if versionLT L version (MinVersion (options m))
          then Return (Inl (VersionTooOld (versionStr L version)
                                          (versionStr L (MinVersion (options m)))))
          else
            (let tag = ''v'' @ versionStr L version
             in case officialExtensions (store w) tag of
                  Some extensions \<Rightarrow> Return (Inr extensions)
                | None \<Rightarrow> Wait (''extensions-'' @ tag) tag))"

text \<open>Lines 189 to 191.\<close>

definition GetOfficialExtensions_start :: "string \<Rightarrow> 'v world \<Rightarrow> 'v world" where
  "GetOfficialExtensions_start tag w =
     DoChan (''extensions-'' @ tag) (FetchOfficialExtensions tag) w"

text \<open>Lines 211 to 214 of \<open>GetExtensionImage\<close>: the path and its \<open>os.Stat\<close>.\<close>

definition GetExtensionImage_probe ::
  "('v, 'r) lib \<Rightarrow> ('v, 'r) Manager \<Rightarrow> Arch \<Rightarrow> ExtensionRef \<Rightarrow> 'v world
     \<Rightarrow> (string, string) phase \<times> 'v world" where
  "GetExtensionImage_probe L m arch ref w =
     (let tarballPath = filepathJoin L [storagePath m, arch @ ''-'' @ Digest ref @ ''.tar''];
          (err, w1) = osStat tarballPath w
      in case err of
           Some _ \<Rightarrow> (Wait tarballPath tarballPath, w1)
         | None \<Rightarrow> (Return (Inr tarballPath), w1))"

text \<open>Lines 215 to 217.\<close>

definition GetExtensionImage_start :: "Arch \<Rightarrow> ExtensionRef \<Rightarrow> string \<Rightarrow> 'v world \<Rightarrow> 'v world" where
  "GetExtensionImage_start arch ref tarballPath w =
     DoChan tarballPath (FetchExtensionImage arch ref tarballPath) w"

subsection \<open>The manager over time\<close>

text \<open>One step of the manager's life. Some caller runs one \<open>os.Stat\<close> (lines 108, 127
  and 214), or reaches one of the four \<open>DoChan\<close> statements (lines 109, 150, 189 and
  215); a call in flight finishes; time passes; or the filesystem changes under the
  manager (by \<open>Close\<close>, which removes the storage directory, or from outside). Reads of
  the map, of the snapshot and of the clock change nothing and are no steps. The relation
  does not record which callers have probed: a \<open>DoChan\<close> step is possible at any time,
  for any key, as it is for a caller whose probe missed at any earlier time.\<close>

inductive step ::
  "'v fetchers \<Rightarrow> ('v, 'r) lib \<Rightarrow> ('v, 'r) Manager \<Rightarrow> 'v world \<Rightarrow> 'v world \<Rightarrow> bool"
  for F :: "'v fetchers" and L :: "('v, 'r) lib" and m :: "('v, 'r) Manager" where
  step_stat: "step F L m w (snd (osStat path w))"
| step_fetchImager: "step F L m w (DoChan tag (FetchImager tag) w)"
| step_fetchTalosVersions: "step F L m w (DoChan ''talos-versions'' FetchTalosVersions w)"
| step_fetchOfficialExtensions: "step F L m w (GetOfficialExtensions_start tag w)"
| step_fetchExtensionImage: "step F L m w (GetExtensionImage_start arch ref tarballPath w)"
| step_finish: "sf_finish F key w = Some (r, w') \<Longrightarrow> step F L m w w'"
| step_tick: "clock w \<le> t \<Longrightarrow> step F L m w (w\<lparr>clock := t\<rparr>)"
| step_fs: "step F L m w (w\<lparr>store := (store w)\<lparr>statErr := fs\<rparr>\<rparr>)"

text \<open>The fetchers never remove an entry of the extension catalog.\<close>

definition keeps_catalog :: "'v fetchers \<Rightarrow> bool" where
  "keeps_catalog F \<longleftrightarrow>
     (\<forall>c now s tag. officialExtensions s tag \<noteq> None
        \<longrightarrow> officialExtensions (snd (run_call F c now s)) tag \<noteq> None)"

text \<open>The fetches started so far, in order.\<close>

definition execs :: "event list \<Rightarrow> call list" where
  "execs evs = concat (map (\<lambda>ev. case ev of EvExec c \<Rightarrow> [c] | EvStat _ \<Rightarrow> []) evs)"

subsection \<open>A concrete manager\<close>

text \<open>An instance to run the operations on: versions are triples of small numbers, paths
  are joined with a slash, and an image reference is \<open>host/repository:tag\<close>.\<close>

type_synonym ex_version = "nat \<times> nat \<times> nat"

definition ex_parse :: "string \<Rightarrow> string + ex_version" where
  "ex_parse s =
     (if s = ''1.6.0'' then Inr (1, 6, 0)
      else if s = ''1.5.0'' then Inr (1, 5, 0)
      else if s = ''1.4.9'' then Inr (1, 4, 9)
      else Inl ''No Major.Minor.Patch elements found'')"

definition ex_parse_tolerant :: "string \<Rightarrow> string + ex_version" where
  "ex_parse_tolerant s =
     (if s = ''v1.6.0'' \<or> s = ''1.6'' then Inr (1, 6, 0) else ex_parse s)"

definition ex_lt :: "ex_version \<Rightarrow> ex_version \<Rightarrow> bool" where
  "ex_lt a b =
     (case (a, b) of ((a1, a2, a3), (b1, b2, b3)) \<Rightarrow>
        a1 < b1 \<or> (a1 = b1 \<and> (a2 < b2 \<or> (a2 = b2 \<and> a3 < b3))))"

definition ex_digit :: "nat \<Rightarrow> char" where
  "ex_digit n = ''0123456789'' ! (n mod 10)"

definition ex_str :: "ex_version \<Rightarrow> string" where
  "ex_str v =
     (case v of (a, b, c) \<Rightarrow> [ex_digit a] @ ''.'' @ [ex_digit b] @ ''.'' @ [ex_digit c])"

fun ex_join :: "string list \<Rightarrow> string" where
  "ex_join [] = []"
| "ex_join [x] = x"
| "ex_join (x # y # ys) = x @ ''/'' @ ex_join (y # ys)"

definition ex_lib :: "(ex_version, string) lib" where
  "ex_lib =
     \<lparr>semverParse = ex_parse, semverParseTolerant = ex_parse_tolerant, versionLT = ex_lt,
      versionStr = ex_str, filepathJoin = ex_join,
      repoTagString = (\<lambda>r repo t. r @ ''/'' @ repo @ '':'' @ t),
      InstallerImage = ''siderolabs/installer''\<rparr>"

definition ex_manager :: "(ex_version, string) Manager" where
  "ex_manager =
     \<lparr>options = \<lparr>MinVersion = (1, 5, 0), TalosVersionRecheckInterval = 900\<rparr>,
      storagePath = ''/tmp/image-service'', flavorsPath = ''/tmp/image-service/flavors'',
      imageRegistry = ''ghcr.io''\<rparr>"

text \<open>Fetchers that succeed: the installer fetch publishes the tag directory with one
  file, the version fetch replaces the snapshot, the catalog fetch installs one entry and
  the export writes the tarball.\<close>

definition touch :: "string list \<Rightarrow> 'v store \<Rightarrow> 'v store" where
  "touch ps s = s\<lparr>statErr := (\<lambda>p. if p \<in> set ps then None else statErr s p)\<rparr>"

definition ex_ext :: ExtensionRef where
  "ex_ext = \<lparr>TaggedReference = ''ghcr.io/siderolabs/gvisor:20231214'', Digest = ''sha256:ab12''\<rparr>"

definition ex_fetchers :: "ex_version fetchers" where
  "ex_fetchers =
     \<lparr>fetchImager = (\<lambda>tag now s.
        (None, touch [''/tmp/image-service/'' @ tag,
                      ''/tmp/image-service/'' @ tag @ ''/amd64/installer''] s)),
      fetchTalosVersions = (\<lambda>now s.
        (None, s\<lparr>talosVersions := [(1, 5, 0), (1, 6, 0)], talosVersionsTimestamp := now\<rparr>)),
      fetchOfficialExtensions = (\<lambda>tag now s.
        (None, s\<lparr>officialExtensions := (officialExtensions s)(tag \<mapsto> [ex_ext])\<rparr>)),
      fetchExtensionImage = (\<lambda>arch ref path now s. (None, touch [path] s))\<rparr>"

text \<open>Fetchers that fail, and fetchers that report success without doing anything.\<close>

definition ex_failing :: "ex_version fetchers" where
  "ex_failing =
     \<lparr>fetchImager = (\<lambda>tag now s. (Some ''registry unreachable'', s)),
      fetchTalosVersions = (\<lambda>now s. (Some ''registry unreachable'', s)),
      fetchOfficialExtensions = (\<lambda>tag now s. (Some ''registry unreachable'', s)),
      fetchExtensionImage = (\<lambda>arch ref path now s. (Some ''registry unreachable'', s))\<rparr>"

definition ex_idle :: "ex_version fetchers" where
  "ex_idle =
     \<lparr>fetchImager = (\<lambda>tag now s. (None, s)),
      fetchTalosVersions = (\<lambda>now s. (None, s)),
      fetchOfficialExtensions = (\<lambda>tag now s. (None, s)),
      fetchExtensionImage = (\<lambda>arch ref path now s. (None, s))\<rparr>"

text \<open>A fresh manager: nothing on disk (every stat fails with ENOENT, 2), empty maps,
  the zero timestamp, nothing in flight.\<close>

definition ex_cold :: "ex_version world" where
  "ex_cold =
     \<lparr>store = \<lparr>statErr = (\<lambda>_. Some 2), officialExtensions = Map.empty,
               talosVersions = [], talosVersionsTimestamp = 0\<rparr>,
      clock = 1000, sf = Map.empty, trace = []\<rparr>"

text \<open>A manager whose version snapshot was taken 500 ns ago.\<close>

definition ex_fresh :: "ex_version world" where
  "ex_fresh =
     \<lparr>store = \<lparr>statErr = (\<lambda>_. Some 2), officialExtensions = Map.empty,
               talosVersions = [(1, 5, 0), (1, 6, 0)], talosVersionsTimestamp = 500\<rparr>,
      clock = 1000, sf = Map.empty, trace = []\<rparr>"

text \<open>The manager after the catalog of v1.6.0 was fetched, and after the installer of
  v1.6.0 was extracted.\<close>

definition ex_warm :: "ex_version world" where
  "ex_warm =
     ex_cold\<lparr>store := (store ex_cold)\<lparr>officialExtensions := [''v1.6.0'' \<mapsto> [ex_ext]]\<rparr>,
              trace := [EvExec (FetchOfficialExtensions ''v1.6.0'')]\<rparr>"

definition ex_extracted :: "ex_version world" where
  "ex_extracted =
     ex_cold\<lparr>store := touch [''/tmp/image-service/v1.6.0'',
                              ''/tmp/image-service/v1.6.0/amd64/installer''] (store ex_cold)\<rparr>"

text \<open>The same image as \<open>ex_ext\<close>, reached under another name.\<close>

definition ex_ext_alias :: ExtensionRef where
  "ex_ext_alias = \<lparr>TaggedReference = ''ghcr.io/siderolabs/gvisor:v1.6.0'', Digest = ''sha256:ab12''\<rparr>"

text \<open>Two callers of \<open>GetExtensionImage\<close> have both found the tarball missing; and the
  manager after the first of them has started the export and the export has written the
  tarball.\<close>

definition ex_both_probed :: "ex_version world" where
  "ex_both_probed =
     ex_cold\<lparr>trace := [EvStat ''/tmp/image-service/amd64-sha256:ab12.tar'',
                       EvStat ''/tmp/image-service/amd64-sha256:ab12.tar'']\<rparr>"

definition ex_exported :: "ex_version world" where
  "ex_exported =
     ex_cold\<lparr>store := touch [''/tmp/image-service/amd64-sha256:ab12.tar''] (store ex_cold),
              trace := [EvStat ''/tmp/image-service/amd64-sha256:ab12.tar'',
                        EvStat ''/tmp/image-service/amd64-sha256:ab12.tar'',
                        EvExec (FetchExtensionImage ''amd64'' ex_ext
                                  ''/tmp/image-service/amd64-sha256:ab12.tar'')]\<rparr>"

text \<open>The manager after a second catalog fetch for v1.6.0 has run on top of
  \<open>ex_warm\<close>.\<close>

definition ex_refetched :: "ex_version world" where
  "ex_refetched =
     ex_warm\<lparr>trace := [EvExec (FetchOfficialExtensions ''v1.6.0''),
                       EvExec (FetchOfficialExtensions ''v1.6.0'')]\<rparr>"

section \<open>Properties\<close>

subsection \<open>The coordinator\<close>

lemma DoChan_store [simp]: "store (DoChan key c w) = store w"
  by (simp add: DoChan_def split: option.splits)

lemma DoChan_clock [simp]: "clock (DoChan key c w) = clock w"
  by (simp add: DoChan_def split: option.splits)

lemma DoChan_in_flight: "sf (DoChan key c w) key \<noteq> None"
  by (simp add: DoChan_def split: option.splits)

lemma DoChan_joined: "sf w key = Some c' \<Longrightarrow> DoChan key c w = w"
  by (simp add: DoChan_def)

lemma DoChan_started:
  "sf w key = None \<Longrightarrow> DoChan key c w = w\<lparr>sf := (sf w)(key \<mapsto> c), trace := trace w @ [EvExec c]\<rparr>"
  by (simp add: DoChan_def)

lemmas exd = ex_lib_def ex_manager_def ex_cold_def ex_fresh_def ex_parse_def
  ex_parse_tolerant_def ex_lt_def ex_str_def ex_digit_def ex_fetchers_def ex_failing_def
  ex_idle_def ex_ext_def touch_def ex_warm_def ex_extracted_def ex_ext_alias_def
  ex_both_probed_def ex_exported_def ex_refetched_def

lemmas op_defs = await_def sf_finish_def DoChan_def osStat_def Let_def

subsection \<open>What the operations leave alone\<close>

lemma osStat_store [simp]: "store (snd (osStat p w)) = store w"
  by (simp add: osStat_def)

lemma Get_path_cases:
  "Get_path L m tag arch kind w =
     (case statErr (store w) (filepathJoin L [storagePath m, tag, arch, kind]) of
        None \<Rightarrow> Inr (filepathJoin L [storagePath m, tag, arch, kind])
      | Some errno \<Rightarrow> Inl (NotFound (StatError (filepathJoin L [storagePath m, tag, arch, kind]) errno)),
      w\<lparr>trace := trace w @ [EvStat (filepathJoin L [storagePath m, tag, arch, kind])]\<rparr>)"
  by (simp add: Get_path_def osStat_def Let_def split: option.splits)

lemma Get_path_store [simp]: "store (snd (Get_path L m tag arch kind w)) = store w"
  by (simp add: Get_path_cases)

lemma Get_begin_store [simp]: "store (snd (Get_begin L m vs arch kind w)) = store w"
  by (simp add: Get_begin_def osStat_def Let_def Get_path_cases split: sum.splits option.splits)

lemma Get_resume_store [simp]: "store (snd (Get_resume L m locals arch kind wk w)) = store w"
  by (cases locals) (simp add: Get_resume_def Get_path_cases split: wake.splits)

lemma GetTalosVersions_begin_store [simp]: "store (snd (GetTalosVersions_begin m w)) = store w"
  by (simp add: GetTalosVersions_begin_def Let_def)

lemma GetOfficialExtensions_begin_store [simp]:
  "store (snd (GetOfficialExtensions_begin L m vs w)) = store w"
  by (simp add: GetOfficialExtensions_begin_def Let_def split: sum.splits option.splits)

lemma GetExtensionImage_begin_store [simp]:
  "store (snd (GetExtensionImage_begin L m arch ref w)) = store w"
  by (simp add: GetExtensionImage_begin_def osStat_def Let_def split: option.splits)

lemma sf_finish_store:
  assumes "sf_finish F key w = Some (r, w')"
  shows "\<exists>c. store w' = snd (run_call F c (clock w) (store w))"
proof (cases "sf w key")
  case None
  with assms show ?thesis by (simp add: sf_finish_def)
next
  case (Some c)
  with assms have "store w' = snd (run_call F c (clock w) (store w))"
    by (auto simp: sf_finish_def Let_def split: prod.splits)
  then show ?thesis ..
qed

lemma step_keeps_entry:
  assumes "keeps_catalog F" and "step F L m w w'" and "officialExtensions (store w) tag \<noteq> None"
  shows "officialExtensions (store w') tag \<noteq> None"
  using assms(2)
proof cases
  case (step_finish key r)
  then obtain c where "store w' = snd (run_call F c (clock w) (store w))"
    using sf_finish_store by blast
  with assms(1,3) show ?thesis by (simp add: keeps_catalog_def)
qed (use assms(3) in \<open>simp_all add: GetOfficialExtensions_start_def GetExtensionImage_start_def\<close>)

lemma steps_keep_entry:
  assumes "keeps_catalog F" and "(step F L m)\<^sup>*\<^sup>* w w'" and "officialExtensions (store w) tag \<noteq> None"
  shows "officialExtensions (store w') tag \<noteq> None"
  using assms(2,3) by (induction rule: rtranclp_induct) (auto dest: step_keeps_entry [OF assms(1)])

subsection \<open>The first halves, statement by statement\<close>

text \<open>A first half is its probe followed, on a miss, by its \<open>DoChan\<close>; and every half
  of every operation is a sequence of steps of the manager.\<close>

lemma GetOfficialExtensions_begin_split:
  "GetOfficialExtensions_begin L m vs w =
     (case GetOfficialExtensions_probe L m vs w of
        Return r \<Rightarrow> (Return r, w)
      | Wait key tag \<Rightarrow> (Wait key tag, GetOfficialExtensions_start tag w))"
  by (simp add: GetOfficialExtensions_begin_def GetOfficialExtensions_probe_def
      GetOfficialExtensions_start_def Let_def split: sum.splits option.splits)

lemma GetExtensionImage_begin_split:
  "GetExtensionImage_begin L m arch ref w =
     (case GetExtensionImage_probe L m arch ref w of
        (Return r, w1) \<Rightarrow> (Return r, w1)
      | (Wait key tarballPath, w1) \<Rightarrow> (Wait key tarballPath, GetExtensionImage_start arch ref tarballPath w1))"
  by (simp add: GetExtensionImage_begin_def GetExtensionImage_probe_def
      GetExtensionImage_start_def osStat_def Let_def split: option.splits)

lemma GetExtensionImage_probe_cases:
  "GetExtensionImage_probe L m arch ref w =
     (let tarballPath = filepathJoin L [storagePath m, arch @ ''-'' @ Digest ref @ ''.tar'']
      in (if statErr (store w) tarballPath = None then Return (Inr tarballPath)
          else Wait tarballPath tarballPath,
          w\<lparr>trace := trace w @ [EvStat tarballPath]\<rparr>))"
  by (simp add: GetExtensionImage_probe_def osStat_def Let_def split: option.splits)

lemma stat_step: "step F L m w (w\<lparr>trace := trace w @ [EvStat path]\<rparr>)"
  using step_stat [of F L m w path] by (simp add: osStat_def)

lemma Get_path_steps: "(step F L m)\<^sup>*\<^sup>* w (snd (Get_path L m tag arch kind w))"
  by (simp add: Get_path_cases stat_step r_into_rtranclp)

lemma execs_append [simp]: "execs (xs @ ys) = execs xs @ execs ys"
  by (simp add: execs_def)

lemma execs_simps [simp]: "execs [] = []" "execs (EvStat p # evs) = execs evs"
  "execs (EvExec c # evs) = c # execs evs"
  by (simp_all add: execs_def)

subsection \<open>Get: a failed fetch\<close>

lemma Get_begin_miss:
  assumes "semverParse L vs = Inr v" "\<not> versionLT L v (MinVersion (options m))"
    and "statErr (store w) (filepathJoin L [storagePath m, ''v'' @ versionStr L v]) = Some errno"
  shows "Get_begin L m vs arch kind w =
           (Wait (''v'' @ versionStr L v)
              (''v'' @ versionStr L v,
               StatError (filepathJoin L [storagePath m, ''v'' @ versionStr L v]) errno),
            DoChan (''v'' @ versionStr L v) (FetchImager (''v'' @ versionStr L v))
              (w\<lparr>trace := trace w @ [EvStat (filepathJoin L [storagePath m, ''v'' @ versionStr L v])]\<rparr>))"
  using assms by (simp add: Get_begin_def osStat_def Let_def)

lemma Get_begin_steps: "(step F L m)\<^sup>*\<^sup>* w (snd (Get_begin L m vs arch kind w))"
proof (cases "semverParse L vs")
  case (Inl e)
  then show ?thesis by (simp add: Get_begin_def)
next
  case (Inr v)
  let ?dir = "filepathJoin L [storagePath m, ''v'' @ versionStr L v]"
  let ?w1 = "w\<lparr>trace := trace w @ [EvStat ?dir]\<rparr>"
  have s1: "(step F L m)\<^sup>*\<^sup>* w ?w1" by (simp add: stat_step r_into_rtranclp)
  show ?thesis
  proof (cases "versionLT L v (MinVersion (options m))")
    case True
    with Inr show ?thesis by (simp add: Get_begin_def)
  next
    case False
    show ?thesis
    proof (cases "statErr (store w) ?dir")
      case None
      with Inr False have "snd (Get_begin L m vs arch kind w) = snd (Get_path L m (''v'' @ versionStr L v) arch kind ?w1)"
        by (simp add: Get_begin_def osStat_def Let_def split: prod.splits)
      with s1 Get_path_steps [of F L m ?w1 "''v'' @ versionStr L v" arch kind] show ?thesis
        by simp
    next
      case (Some errno)
      have "step F L m ?w1 (DoChan (''v'' @ versionStr L v) (FetchImager (''v'' @ versionStr L v)) ?w1)"
        by (rule step_fetchImager)
      with s1 show ?thesis
        unfolding Get_begin_miss [OF Inr False Some] by simp
    qed
  qed
qed

lemma Get_resume_steps: "(step F L m)\<^sup>*\<^sup>* w (snd (Get_resume L m locals arch kind wk w))"
  by (cases locals; cases wk) (simp_all add: Get_resume_def Get_path_steps)

lemma GetTalosVersions_begin_steps: "(step F L m)\<^sup>*\<^sup>* w (snd (GetTalosVersions_begin m w))"
  by (simp add: GetTalosVersions_begin_def Let_def step_fetchTalosVersions r_into_rtranclp)

lemma GetOfficialExtensions_begin_steps:
  "(step F L m)\<^sup>*\<^sup>* w (snd (GetOfficialExtensions_begin L m vs w))"
  by (cases "GetOfficialExtensions_probe L m vs w")
    (simp_all add: GetOfficialExtensions_begin_split step_fetchOfficialExtensions r_into_rtranclp)

lemma GetExtensionImage_begin_steps:
  "(step F L m)\<^sup>*\<^sup>* w (snd (GetExtensionImage_begin L m arch ref w))"
proof -
  let ?p = "filepathJoin L [storagePath m, arch @ ''-'' @ Digest ref @ ''.tar'']"
  let ?w1 = "w\<lparr>trace := trace w @ [EvStat ?p]\<rparr>"
  have s1: "(step F L m)\<^sup>*\<^sup>* w ?w1" by (simp add: stat_step r_into_rtranclp)
  have "step F L m ?w1 (GetExtensionImage_start arch ref ?p ?w1)"
    by (rule step_fetchExtensionImage)
  with s1 have "(step F L m)\<^sup>*\<^sup>* w (GetExtensionImage_start arch ref ?p ?w1)" by simp
  with s1 show ?thesis
    by (simp add: GetExtensionImage_begin_split GetExtensionImage_probe_cases Let_def)
qed

text \<open>Whatever error the fetch ends with, the caller gets the error of the directory's
  \<open>os.Stat\<close>: line 117 returns \<open>err\<close>, not \<open>result.Err\<close>.\<close>

lemma Get_failed_fetch:
  assumes "semverParse L vs = Inr v" "\<not> versionLT L v (MinVersion (options m))"
    and "statErr (store w) (filepathJoin L [storagePath m, ''v'' @ versionStr L v]) = Some errno"
    and "sf_finish F (''v'' @ versionStr L v) (snd (Get_begin L m vs arch kind w)) = Some (Some e, w')"
  shows "Get F L m None vs arch kind w =
           Some (Inl (StatError (filepathJoin L [storagePath m, ''v'' @ versionStr L v]) errno), w')"
  using assms(4) unfolding Get_begin_miss [OF assms(1-3)]
  by (simp add: Get_def Get_begin_miss [OF assms(1-3)] await_def Get_resume_def)

text \<open>
  Claim C1. When the tag directory is absent and the coordinated fetch ends with a non-nil
  error, the error \<open>Get\<close> returns should be the fetch's own error. On a cold cache, with
  a fetcher that fails with \<open>registry unreachable\<close>, \<open>Get\<close> of version 1.6.0 returns
  the \<open>os.Stat\<close> error of the missing directory instead.
\<close>

theorem Get_failed_fetch_returns_stat_error:
  "map_option fst (Get ex_failing ex_lib ex_manager None ''1.6.0'' ''amd64'' ''installer'' ex_cold)
     = Some (Inl (StatError ''/tmp/image-service/v1.6.0'' 2))
   \<and> map_option fst (sf_finish ex_failing ''v1.6.0''
         (snd (Get_begin ex_lib ex_manager ''1.6.0'' ''amd64'' ''installer'' ex_cold)))
     = Some (Some ''registry unreachable'')"
  by (simp add: Get_def Get_begin_def Get_resume_def Get_path_def op_defs exd)

subsection \<open>The version floor\<close>

text \<open>
  Claim C2. A version string that parses to a version below \<open>MinVersion\<close> makes \<open>Get\<close>
  and \<open>GetOfficialExtensions\<close> return the version-too-old error in their first half, and
  the world afterwards is the world before: no \<open>os.Stat\<close>, nothing handed to the
  coordinator, no fetch.
\<close>

theorem too_old_rejected_before_io:
  "(semverParse L vs = Inr v \<and> versionLT L v (MinVersion (options m)) \<longrightarrow>
      Get_begin L m vs arch kind w =
        (Return (Inl (VersionTooOld (versionStr L v) (versionStr L (MinVersion (options m))))), w)
      \<and> Get F L m cancel vs arch kind w =
        Some (Inl (VersionTooOld (versionStr L v) (versionStr L (MinVersion (options m)))), w))
   \<and> (semverParseTolerant L vs = Inr v' \<and> versionLT L v' (MinVersion (options m)) \<longrightarrow>
      GetOfficialExtensions_begin L m vs w =
        (Return (Inl (VersionTooOld (versionStr L v') (versionStr L (MinVersion (options m))))), w)
      \<and> GetOfficialExtensions F L m cancel vs w =
        Some (Inl (VersionTooOld (versionStr L v') (versionStr L (MinVersion (options m)))), w))"
  by (simp add: Get_def Get_begin_def GetOfficialExtensions_def GetOfficialExtensions_begin_def)

theorem too_old_rejected_before_io_witness:
  "semverParse ex_lib ''1.4.9'' = Inr (1, 4, 9)
   \<and> versionLT ex_lib (1, 4, 9) (MinVersion (options ex_manager))
   \<and> Get ex_fetchers ex_lib ex_manager None ''1.4.9'' ''amd64'' ''installer'' ex_cold
       = Some (Inl (VersionTooOld ''1.4.9'' ''1.5.0''), ex_cold)
   \<and> semverParseTolerant ex_lib ''1.4.9'' = Inr (1, 4, 9)
   \<and> GetOfficialExtensions ex_fetchers ex_lib ex_manager None ''1.4.9'' ex_cold
       = Some (Inl (VersionTooOld ''1.4.9'' ''1.5.0''), ex_cold)"
  using too_old_rejected_before_io [of ex_lib "''1.4.9''" "(1, 4, 9)" ex_manager "''amd64''"
      "''installer''" ex_cold ex_fetchers None "(1, 4, 9)"]
  by (simp add: ex_lib_def ex_manager_def ex_parse_def ex_parse_tolerant_def ex_lt_def ex_str_def
      ex_digit_def)

subsection \<open>The version snapshot\<close>

text \<open>
  Claim C3. When the time since the snapshot's timestamp is below the recheck interval,
  \<open>GetTalosVersions\<close> returns the stored snapshot with no error and leaves the world as it
  was: no refresh is started. Otherwise, and only then, it hands the refresh to the
  coordinator under the key \<open>talos-versions\<close> and waits.
\<close>

theorem GetTalosVersions_within_interval:
  "(timeSince (clock w) (talosVersionsTimestamp (store w)) < TalosVersionRecheckInterval (options m) \<longrightarrow>
      GetTalosVersions_begin m w = (Return (Inr (talosVersions (store w))), w)
      \<and> GetTalosVersions F m cancel w = Some (Inr (talosVersions (store w)), w))
   \<and> (\<not> timeSince (clock w) (talosVersionsTimestamp (store w)) < TalosVersionRecheckInterval (options m) \<longrightarrow>
      GetTalosVersions_begin m w =
        (Wait ''talos-versions'' (), DoChan ''talos-versions'' FetchTalosVersions w))"
  by (simp add: GetTalosVersions_def GetTalosVersions_begin_def Let_def)

theorem GetTalosVersions_within_interval_witness:
  "timeSince (clock ex_fresh) (talosVersionsTimestamp (store ex_fresh))
      < TalosVersionRecheckInterval (options ex_manager)
   \<and> GetTalosVersions ex_fetchers ex_manager (Some Canceled) ex_fresh
       = Some (Inr [(1, 5, 0), (1, 6, 0)], ex_fresh)
   \<and> \<not> timeSince (clock ex_cold) (talosVersionsTimestamp (store ex_cold))
      < TalosVersionRecheckInterval (options ex_manager)
   \<and> fst (GetTalosVersions_begin ex_manager ex_cold) = Wait ''talos-versions'' ()
   \<and> trace (snd (GetTalosVersions_begin ex_manager ex_cold)) = [EvExec FetchTalosVersions]"
proof -
  have a: "timeSince (clock ex_fresh) (talosVersionsTimestamp (store ex_fresh))
      < TalosVersionRecheckInterval (options ex_manager)"
    and b: "\<not> timeSince (clock ex_cold) (talosVersionsTimestamp (store ex_cold))
      < TalosVersionRecheckInterval (options ex_manager)"
    by (simp_all add: timeSince_def ex_fresh_def ex_cold_def ex_manager_def)
  have c: "talosVersions (store ex_fresh) = [(1, 5, 0), (1, 6, 0)]"
    by (simp add: ex_fresh_def)
  have d: "trace (DoChan ''talos-versions'' FetchTalosVersions ex_cold) = [EvExec FetchTalosVersions]"
    by (simp add: DoChan_def ex_cold_def)
  from GetTalosVersions_within_interval [of ex_fresh ex_manager ex_fetchers "Some Canceled"]
    GetTalosVersions_within_interval [of ex_cold ex_manager ex_fetchers None] a b
  show ?thesis by (simp add: c d)
qed

subsection \<open>The extension catalog\<close>

lemma GetOfficialExtensions_begin_hit:
  assumes "semverParseTolerant L vs = Inr v" "\<not> versionLT L v (MinVersion (options m))"
    and "officialExtensions (store w) (''v'' @ versionStr L v) = Some exts"
  shows "GetOfficialExtensions_begin L m vs w = (Return (Inr exts), w)"
  using assms by (simp add: GetOfficialExtensions_begin_def)

lemma GetOfficialExtensions_begin_miss:
  assumes "semverParseTolerant L vs = Inr v" "\<not> versionLT L v (MinVersion (options m))"
    and "officialExtensions (store w) (''v'' @ versionStr L v) = None"
  shows "GetOfficialExtensions_begin L m vs w =
           (Wait (''extensions-'' @ ''v'' @ versionStr L v) (''v'' @ versionStr L v),
            DoChan (''extensions-'' @ ''v'' @ versionStr L v)
              (FetchOfficialExtensions (''v'' @ versionStr L v)) w)"
  using assms by (simp add: GetOfficialExtensions_begin_def Let_def)

text \<open>The schedule in which the catalog of one tag is fetched twice is a run of the
  manager.\<close>

lemma catalog_race_is_a_run:
  "(step ex_fetchers ex_lib ex_manager)\<^sup>*\<^sup>* ex_cold (GetOfficialExtensions_start ''v1.6.0'' ex_warm)"
proof -
  let ?R = "step ex_fetchers ex_lib ex_manager"
  have s1: "?R ex_cold (GetOfficialExtensions_start ''v1.6.0'' ex_cold)"
    by (rule step_fetchOfficialExtensions)
  have "sf_finish ex_fetchers ''extensions-v1.6.0'' (GetOfficialExtensions_start ''v1.6.0'' ex_cold)
      = Some (None, ex_warm)"
    by (simp add: GetOfficialExtensions_start_def op_defs exd)
  then have s2: "?R (GetOfficialExtensions_start ''v1.6.0'' ex_cold) ex_warm"
    by (rule step_finish)
  have s3: "?R ex_warm (GetOfficialExtensions_start ''v1.6.0'' ex_warm)"
    by (rule step_fetchOfficialExtensions)
  from s1 have "?R\<^sup>*\<^sup>* ex_cold (GetOfficialExtensions_start ''v1.6.0'' ex_cold)"
    by (rule r_into_rtranclp)
  from this s2 have "?R\<^sup>*\<^sup>* ex_cold ex_warm"
    by (rule rtranclp.rtrancl_into_rtrancl)
  from this s3 show ?thesis
    by (rule rtranclp.rtrancl_into_rtrancl)
qed

text \<open>
  Claim C4 says that once a call for a tag has completed and installed the map entry, the
  catalog fetch for that tag never runs again: at most one fetch per tag and population.
  That count fails. Two callers read the map while it is empty; the first starts the
  fetch, the fetch installs the entry and the first caller returns it; the second caller
  then reaches its \<open>DoChan\<close>, finds the key no longer in flight, and a second fetch
  for the populated tag starts.
\<close>

theorem catalog_fetched_again_after_install:
  "GetOfficialExtensions_probe ex_lib ex_manager ''1.6'' ex_cold = Wait ''extensions-v1.6.0'' ''v1.6.0''
   \<and> GetOfficialExtensions_probe ex_lib ex_manager ''v1.6.0'' ex_cold = Wait ''extensions-v1.6.0'' ''v1.6.0''
   \<and> sf_finish ex_fetchers ''extensions-v1.6.0'' (GetOfficialExtensions_start ''v1.6.0'' ex_cold)
       = Some (None, ex_warm)
   \<and> GetOfficialExtensions_resume ''v1.6.0'' (Result None) ex_warm = Inr [ex_ext]
   \<and> officialExtensions (store ex_warm) ''v1.6.0'' = Some [ex_ext]
   \<and> execs (trace ex_warm) = [FetchOfficialExtensions ''v1.6.0'']
   \<and> execs (trace (GetOfficialExtensions_start ''v1.6.0'' ex_warm))
       = [FetchOfficialExtensions ''v1.6.0'', FetchOfficialExtensions ''v1.6.0'']"
  by (simp add: GetOfficialExtensions_probe_def GetOfficialExtensions_start_def
      GetOfficialExtensions_resume_def op_defs exd)

text \<open>
  Claim C4, amended. Once the map holds an entry for a tag, every call of
  \<open>GetOfficialExtensions\<close> for that tag whose map read comes afterwards, after any
  further steps of the manager, returns the entry the map then holds, in its first half
  and with the world unchanged: it starts no catalog fetch. While a catalog fetch for the
  tag is in flight, a \<open>DoChan\<close> for the tag starts no second one. The fetchers are
  assumed never to remove an entry; manager.go itself never writes the map.
\<close>

theorem GetOfficialExtensions_cached_for_good:
  assumes "keeps_catalog F"
    and "semverParseTolerant L vs = Inr v" and "\<not> versionLT L v (MinVersion (options m))"
    and "officialExtensions (store w) (''v'' @ versionStr L v) \<noteq> None"
    and "(step F L m)\<^sup>*\<^sup>* w w'"
  shows "(\<exists>exts. officialExtensions (store w') (''v'' @ versionStr L v) = Some exts
           \<and> GetOfficialExtensions_probe L m vs w' = Return (Inr exts)
           \<and> GetOfficialExtensions_begin L m vs w' = (Return (Inr exts), w')
           \<and> GetOfficialExtensions F L m cancel vs w' = Some (Inr exts, w'))
         \<and> (sf w' (''extensions-'' @ ''v'' @ versionStr L v) \<noteq> None \<longrightarrow>
              GetOfficialExtensions_start (''v'' @ versionStr L v) w' = w')"
proof -
  from steps_keep_entry [OF assms(1,5,4)]
  obtain exts where e: "officialExtensions (store w') (''v'' @ versionStr L v) = Some exts"
    by blast
  have p: "GetOfficialExtensions_probe L m vs w' = Return (Inr exts)"
    using assms(2,3) e by (simp add: GetOfficialExtensions_probe_def)
  have j: "sf w' (''extensions-'' @ ''v'' @ versionStr L v) \<noteq> None \<longrightarrow>
              GetOfficialExtensions_start (''v'' @ versionStr L v) w' = w'"
    by (auto simp: GetOfficialExtensions_start_def DoChan_def)
  from GetOfficialExtensions_begin_hit [OF assms(2,3) e]
  show ?thesis using e p j by (simp add: GetOfficialExtensions_def)
qed

theorem GetOfficialExtensions_cached_for_good_witness:
  "keeps_catalog ex_fetchers
   \<and> officialExtensions (store ex_warm) ''v1.6.0'' \<noteq> None
   \<and> (step ex_fetchers ex_lib ex_manager)\<^sup>*\<^sup>* ex_warm (GetOfficialExtensions_start ''v1.6.0'' ex_warm)
   \<and> (step ex_fetchers ex_lib ex_manager)\<^sup>*\<^sup>* ex_warm ex_refetched
   \<and> GetOfficialExtensions ex_fetchers ex_lib ex_manager (Some Canceled) ''v1.6.0'' ex_refetched
       = Some (Inr [ex_ext], ex_refetched)
   \<and> sf (GetOfficialExtensions_start ''v1.6.0'' ex_warm) ''extensions-v1.6.0'' \<noteq> None
   \<and> GetOfficialExtensions_start ''v1.6.0'' (GetOfficialExtensions_start ''v1.6.0'' ex_warm)
       = GetOfficialExtensions_start ''v1.6.0'' ex_warm"
proof -
  let ?w1 = "GetOfficialExtensions_start ''v1.6.0'' ex_warm"
  have k: "keeps_catalog ex_fetchers"
    unfolding keeps_catalog_def
  proof (intro allI impI)
    fix c now and s :: "ex_version store" and tag
    assume "officialExtensions s tag \<noteq> None"
    then show "officialExtensions (snd (run_call ex_fetchers c now s)) tag \<noteq> None"
      by (cases c) (simp_all add: ex_fetchers_def touch_def)
  qed
  have p: "semverParseTolerant ex_lib ''v1.6.0'' = Inr (1, 6, 0)"
    and l: "\<not> versionLT ex_lib (1, 6, 0) (MinVersion (options ex_manager))"
    and e: "officialExtensions (store ex_warm) (''v'' @ versionStr ex_lib (1, 6, 0)) \<noteq> None"
    and e': "officialExtensions (store ex_warm) ''v1.6.0'' \<noteq> None"
    and t: "versionStr ex_lib (Suc 0, 6, 0) = ''1.6.0''"
    by (simp_all add: exd)
  have s1: "step ex_fetchers ex_lib ex_manager ex_warm ?w1"
    by (rule step_fetchOfficialExtensions)
  have f: "sf_finish ex_fetchers ''extensions-v1.6.0'' ?w1 = Some (None, ex_refetched)"
    by (simp add: GetOfficialExtensions_start_def op_defs exd)
  then have s2: "step ex_fetchers ex_lib ex_manager ?w1 ex_refetched"
    by (rule step_finish)
  from s1 have r1: "(step ex_fetchers ex_lib ex_manager)\<^sup>*\<^sup>* ex_warm ?w1"
    by (rule r_into_rtranclp)
  from r1 s2 have r2: "(step ex_fetchers ex_lib ex_manager)\<^sup>*\<^sup>* ex_warm ex_refetched"
    by (rule rtranclp.rtrancl_into_rtrancl)
  have i: "sf ?w1 ''extensions-v1.6.0'' \<noteq> None"
    by (simp add: GetOfficialExtensions_start_def DoChan_in_flight)
  have v: "officialExtensions (store ex_refetched) (''v'' @ versionStr ex_lib (1, 6, 0)) = Some [ex_ext]"
    by (simp add: exd)
  from GetOfficialExtensions_cached_for_good [OF k p l e r2, of "Some Canceled", THEN conjunct1]
  obtain exts where
    x: "officialExtensions (store ex_refetched) (''v'' @ versionStr ex_lib (1, 6, 0)) = Some exts"
    and y: "GetOfficialExtensions ex_fetchers ex_lib ex_manager (Some Canceled) ''v1.6.0'' ex_refetched
       = Some (Inr exts, ex_refetched)"
    by blast
  from x v have "exts = [ex_ext]" by simp
  with y have y': "GetOfficialExtensions ex_fetchers ex_lib ex_manager (Some Canceled) ''v1.6.0'' ex_refetched
       = Some (Inr [ex_ext], ex_refetched)"
    by simp
  from GetOfficialExtensions_cached_for_good [OF k p l e r1, of None, THEN conjunct2] i
  have z: "GetOfficialExtensions_start ''v1.6.0'' ?w1 = ?w1"
    by (simp add: t)
  from k e' r1 r2 y' i z show ?thesis by simp
qed

text \<open>
  Claim C9. When the catalog fetch ends with a nil error and the map has no entry for the
  tag, \<open>GetOfficialExtensions\<close> returns the nil list and no error: the second map
  read does not look at presence.
\<close>

theorem GetOfficialExtensions_nil_without_entry:
  "(officialExtensions (store w) tag = None \<longrightarrow>
      GetOfficialExtensions_resume tag (Result None) w = Inr [])
   \<and> (semverParseTolerant L vs = Inr v \<and> \<not> versionLT L v (MinVersion (options m))
        \<and> officialExtensions (store w) (''v'' @ versionStr L v) = None
        \<and> sf_finish F (''extensions-'' @ ''v'' @ versionStr L v)
             (snd (GetOfficialExtensions_begin L m vs w)) = Some (None, w2)
        \<and> officialExtensions (store w2) (''v'' @ versionStr L v) = None \<longrightarrow>
      GetOfficialExtensions F L m None vs w = Some (Inr [], w2))"
proof (intro conjI impI)
  assume "officialExtensions (store w) tag = None"
  then show "GetOfficialExtensions_resume tag (Result None) w = Inr []"
    by (simp add: GetOfficialExtensions_resume_def)
next
  assume h: "semverParseTolerant L vs = Inr v \<and> \<not> versionLT L v (MinVersion (options m))
        \<and> officialExtensions (store w) (''v'' @ versionStr L v) = None
        \<and> sf_finish F (''extensions-'' @ ''v'' @ versionStr L v)
             (snd (GetOfficialExtensions_begin L m vs w)) = Some (None, w2)
        \<and> officialExtensions (store w2) (''v'' @ versionStr L v) = None"
  then have b: "GetOfficialExtensions_begin L m vs w =
           (Wait (''extensions-'' @ ''v'' @ versionStr L v) (''v'' @ versionStr L v),
            DoChan (''extensions-'' @ ''v'' @ versionStr L v)
              (FetchOfficialExtensions (''v'' @ versionStr L v)) w)"
    by (simp add: GetOfficialExtensions_begin_miss)
  from h show "GetOfficialExtensions F L m None vs w = Some (Inr [], w2)"
    unfolding b by (simp add: GetOfficialExtensions_def b await_def GetOfficialExtensions_resume_def)
qed

theorem GetOfficialExtensions_nil_without_entry_witness:
  "officialExtensions (store ex_cold) ''v1.6.0'' = None
   \<and> GetOfficialExtensions_resume ''v1.6.0'' (Result None) ex_cold = Inr []
   \<and> semverParseTolerant ex_lib ''1.6'' = Inr (1, 6, 0)
   \<and> \<not> versionLT ex_lib (1, 6, 0) (MinVersion (options ex_manager))
   \<and> GetOfficialExtensions ex_idle ex_lib ex_manager None ''1.6'' ex_cold
       = Some (Inr [], ex_cold\<lparr>trace := [EvExec (FetchOfficialExtensions ''v1.6.0'')]\<rparr>)"
proof -
  let ?w2 = "ex_cold\<lparr>trace := [EvExec (FetchOfficialExtensions ''v1.6.0'')]\<rparr>"
  have a: "officialExtensions (store ex_cold) ''v1.6.0'' = None"
    and p: "semverParseTolerant ex_lib ''1.6'' = Inr (1, 6, 0)"
    and l: "\<not> versionLT ex_lib (1, 6, 0) (MinVersion (options ex_manager))"
    and t: "versionStr ex_lib (Suc 0, 6, 0) = ''1.6.0''"
    and a2: "officialExtensions (store ?w2) ''v1.6.0'' = None"
    by (simp_all add: exd)
  have f: "sf_finish ex_idle ''extensions-v1.6.0''
      (snd (GetOfficialExtensions_begin ex_lib ex_manager ''1.6'' ex_cold)) = Some (None, ?w2)"
    by (simp add: GetOfficialExtensions_begin_def op_defs exd)
  from GetOfficialExtensions_nil_without_entry [of ex_cold "''v1.6.0''" ex_lib "''1.6''" "(1, 6, 0)"
      ex_manager ex_idle ?w2] a p l a2 f
  show ?thesis by (simp add: t)
qed

subsection \<open>Extension images\<close>

lemma GetExtensionImage_begin_cases:
  "GetExtensionImage_begin L m arch ref w =
     (let tarballPath = filepathJoin L [storagePath m, arch @ ''-'' @ Digest ref @ ''.tar''];
          w1 = w\<lparr>trace := trace w @ [EvStat tarballPath]\<rparr>
      in if statErr (store w) tarballPath = None then (Return (Inr tarballPath), w1)
         else (Wait tarballPath tarballPath,
               DoChan tarballPath (FetchExtensionImage arch ref tarballPath) w1))"
  by (simp add: GetExtensionImage_begin_def osStat_def Let_def split: option.splits)

lemma GetExtensionImage_resume_cases:
  "GetExtensionImage_resume p wk = Inr p
   \<or> (\<exists>e. GetExtensionImage_resume p wk = Inl (FetchError e))
   \<or> (\<exists>ce. GetExtensionImage_resume p wk = Inl (Cancelled ce))"
proof (cases wk)
  case (Result resultErr)
  then show ?thesis by (cases resultErr) (simp_all add: GetExtensionImage_resume_def)
next
  case (CtxDone ce)
  then show ?thesis by (simp add: GetExtensionImage_resume_def)
qed

lemma GetExtensionImage_result:
  assumes "GetExtensionImage F L m cancel arch ref w = Some (r, w')"
  shows "r = Inr (filepathJoin L [storagePath m, arch @ ''-'' @ Digest ref @ ''.tar''])
         \<or> (\<exists>e. r = Inl (FetchError e)) \<or> (\<exists>ce. r = Inl (Cancelled ce))"
proof (cases "statErr (store w) (filepathJoin L [storagePath m, arch @ ''-'' @ Digest ref @ ''.tar'']) = None")
  case True
  with assms show ?thesis
    by (simp add: GetExtensionImage_def GetExtensionImage_begin_cases Let_def)
next
  case False
  with assms obtain wk where
    "r = GetExtensionImage_resume (filepathJoin L [storagePath m, arch @ ''-'' @ Digest ref @ ''.tar'']) wk"
    by (auto simp: GetExtensionImage_def GetExtensionImage_begin_cases Let_def)
  with GetExtensionImage_resume_cases [of "filepathJoin L [storagePath m, arch @ ''-'' @ Digest ref @ ''.tar'']" wk]
  show ?thesis by simp
qed

text \<open>The schedule in which one tarball is exported twice is a run of the manager.\<close>

lemma export_race_is_a_run:
  "(step ex_fetchers ex_lib ex_manager)\<^sup>*\<^sup>* ex_cold
     (GetExtensionImage_start ''amd64'' ex_ext_alias ''/tmp/image-service/amd64-sha256:ab12.tar'' ex_exported)"
proof -
  let ?R = "step ex_fetchers ex_lib ex_manager"
  let ?p = "''/tmp/image-service/amd64-sha256:ab12.tar''"
  have s1: "?R ex_cold (ex_cold\<lparr>trace := [EvStat ?p]\<rparr>)"
    using stat_step [of ex_fetchers ex_lib ex_manager ex_cold ?p] by (simp add: ex_cold_def)
  have s2: "?R (ex_cold\<lparr>trace := [EvStat ?p]\<rparr>) ex_both_probed"
    using stat_step [of ex_fetchers ex_lib ex_manager "ex_cold\<lparr>trace := [EvStat ?p]\<rparr>" ?p]
    by (simp add: ex_cold_def ex_both_probed_def)
  have s3: "?R ex_both_probed (GetExtensionImage_start ''amd64'' ex_ext ?p ex_both_probed)"
    by (rule step_fetchExtensionImage)
  have "sf_finish ex_fetchers ?p (GetExtensionImage_start ''amd64'' ex_ext ?p ex_both_probed)
      = Some (None, ex_exported)"
    by (simp add: GetExtensionImage_start_def op_defs exd)
  then have s4: "?R (GetExtensionImage_start ''amd64'' ex_ext ?p ex_both_probed) ex_exported"
    by (rule step_finish)
  have s5: "?R ex_exported (GetExtensionImage_start ''amd64'' ex_ext_alias ?p ex_exported)"
    by (rule step_fetchExtensionImage)
  from s1 have "?R\<^sup>*\<^sup>* ex_cold (ex_cold\<lparr>trace := [EvStat ?p]\<rparr>)"
    by (rule r_into_rtranclp)
  from this s2 have "?R\<^sup>*\<^sup>* ex_cold ex_both_probed"
    by (rule rtranclp.rtrancl_into_rtrancl)
  from this s3 have "?R\<^sup>*\<^sup>* ex_cold (GetExtensionImage_start ''amd64'' ex_ext ?p ex_both_probed)"
    by (rule rtranclp.rtrancl_into_rtrancl)
  from this s4 have "?R\<^sup>*\<^sup>* ex_cold ex_exported"
    by (rule rtranclp.rtrancl_into_rtrancl)
  from this s5 show ?thesis
    by (rule rtranclp.rtrancl_into_rtrancl)
qed

text \<open>
  Claim C5 says that two calls with the same architecture and digest that find the tarball
  absent coalesce to exactly one export. That count fails. Two callers, under different
  names, both stat the tarball and find it missing; the first starts the export, which
  writes the tarball and finishes; the second then reaches its \<open>DoChan\<close>, finds the key
  no longer in flight, and a second export of the same tarball starts.
\<close>

theorem export_run_again_after_tarball_written:
  "GetExtensionImage_probe ex_lib ex_manager ''amd64'' ex_ext ex_cold
     = (Wait ''/tmp/image-service/amd64-sha256:ab12.tar'' ''/tmp/image-service/amd64-sha256:ab12.tar'',
        ex_cold\<lparr>trace := [EvStat ''/tmp/image-service/amd64-sha256:ab12.tar'']\<rparr>)
   \<and> GetExtensionImage_probe ex_lib ex_manager ''amd64'' ex_ext_alias
        (ex_cold\<lparr>trace := [EvStat ''/tmp/image-service/amd64-sha256:ab12.tar'']\<rparr>)
     = (Wait ''/tmp/image-service/amd64-sha256:ab12.tar'' ''/tmp/image-service/amd64-sha256:ab12.tar'',
        ex_both_probed)
   \<and> sf_finish ex_fetchers ''/tmp/image-service/amd64-sha256:ab12.tar''
        (GetExtensionImage_start ''amd64'' ex_ext ''/tmp/image-service/amd64-sha256:ab12.tar'' ex_both_probed)
     = Some (None, ex_exported)
   \<and> GetExtensionImage_resume ''/tmp/image-service/amd64-sha256:ab12.tar'' (Result None)
     = Inr ''/tmp/image-service/amd64-sha256:ab12.tar''
   \<and> statErr (store ex_exported) ''/tmp/image-service/amd64-sha256:ab12.tar'' = None
   \<and> execs (trace (GetExtensionImage_start ''amd64'' ex_ext_alias
                       ''/tmp/image-service/amd64-sha256:ab12.tar'' ex_exported))
     = [FetchExtensionImage ''amd64'' ex_ext ''/tmp/image-service/amd64-sha256:ab12.tar'',
        FetchExtensionImage ''amd64'' ex_ext_alias ''/tmp/image-service/amd64-sha256:ab12.tar'']"
  by (simp add: GetExtensionImage_probe_def GetExtensionImage_start_def GetExtensionImage_resume_def
      op_defs exd)

text \<open>
  Claim C5, amended. \<open>GetExtensionImage\<close> is keyed by architecture and digest alone.
  Every path it returns is the join of the storage path and \<open>architecture-digest.tar\<close>;
  two references with the same digest get the same stat outcome and, on a miss, the same
  coordinator key. A call that reaches \<open>DoChan\<close> while an export for the path is in
  flight starts none of its own; so when the tarball is absent and nothing is in flight,
  two calls that both reach \<open>DoChan\<close> before the export finishes start exactly one
  export, whose single outcome is what both then receive. Once the tarball is on disk, a
  call under either name returns the path after one stat and starts no export.
\<close>

theorem GetExtensionImage_keyed_by_arch_and_digest:
  "(GetExtensionImage F L m cancel arch ref w = Some (Inr p, w') \<longrightarrow>
      p = filepathJoin L [storagePath m, arch @ ''-'' @ Digest ref @ ''.tar''])
   \<and> (Digest ref' = Digest ref \<longrightarrow>
      GetExtensionImage_probe L m arch ref' w = GetExtensionImage_probe L m arch ref w
      \<and> fst (GetExtensionImage_begin L m arch ref' w) = fst (GetExtensionImage_begin L m arch ref w))
   \<and> (sf w (filepathJoin L [storagePath m, arch @ ''-'' @ Digest ref @ ''.tar'']) \<noteq> None \<longrightarrow>
      GetExtensionImage_start arch ref'
        (filepathJoin L [storagePath m, arch @ ''-'' @ Digest ref @ ''.tar'']) w = w)
   \<and> (Digest ref' = Digest ref
        \<and> statErr (store w) (filepathJoin L [storagePath m, arch @ ''-'' @ Digest ref @ ''.tar'']) \<noteq> None
        \<and> sf w (filepathJoin L [storagePath m, arch @ ''-'' @ Digest ref @ ''.tar'']) = None \<longrightarrow>
      (let path = filepathJoin L [storagePath m, arch @ ''-'' @ Digest ref @ ''.tar''];
           (p1, w1) = GetExtensionImage_probe L m arch ref w;
           (p2, w2) = GetExtensionImage_probe L m arch ref' w1;
           w3 = GetExtensionImage_start arch ref path w2;
           w4 = GetExtensionImage_start arch ref' path w3
       in p1 = Wait path path \<and> p2 = Wait path path
          \<and> sf w4 = (sf w)(path \<mapsto> FetchExtensionImage arch ref path)
          \<and> execs (trace w4) = execs (trace w) @ [FetchExtensionImage arch ref path]
          \<and> (\<forall>r w5. sf_finish F path w4 = Some (r, w5) \<longrightarrow>
                sf w5 = sf w \<and> execs (trace w5) = execs (trace w) @ [FetchExtensionImage arch ref path]
                \<and> (r, store w5) = fetchExtensionImage F arch ref path (clock w) (store w))))
   \<and> (Digest ref' = Digest ref
        \<and> statErr (store w) (filepathJoin L [storagePath m, arch @ ''-'' @ Digest ref @ ''.tar'']) = None \<longrightarrow>
      GetExtensionImage_begin L m arch ref' w =
        (Return (Inr (filepathJoin L [storagePath m, arch @ ''-'' @ Digest ref @ ''.tar''])),
         w\<lparr>trace := trace w @ [EvStat (filepathJoin L [storagePath m, arch @ ''-'' @ Digest ref @ ''.tar''])]\<rparr>))"
proof (intro conjI impI)
  assume "GetExtensionImage F L m cancel arch ref w = Some (Inr p, w')"
  from GetExtensionImage_result [OF this]
  show "p = filepathJoin L [storagePath m, arch @ ''-'' @ Digest ref @ ''.tar'']"
    by simp
next
  assume "Digest ref' = Digest ref"
  then show "GetExtensionImage_probe L m arch ref' w = GetExtensionImage_probe L m arch ref w"
    by (simp add: GetExtensionImage_probe_cases Let_def)
next
  assume "Digest ref' = Digest ref"
  then show "fst (GetExtensionImage_begin L m arch ref' w) = fst (GetExtensionImage_begin L m arch ref w)"
    by (simp add: GetExtensionImage_begin_cases Let_def)
next
  assume "sf w (filepathJoin L [storagePath m, arch @ ''-'' @ Digest ref @ ''.tar'']) \<noteq> None"
  then show "GetExtensionImage_start arch ref'
        (filepathJoin L [storagePath m, arch @ ''-'' @ Digest ref @ ''.tar'']) w = w"
    by (auto simp: GetExtensionImage_start_def DoChan_def)
next
  assume h: "Digest ref' = Digest ref
        \<and> statErr (store w) (filepathJoin L [storagePath m, arch @ ''-'' @ Digest ref @ ''.tar'']) \<noteq> None
        \<and> sf w (filepathJoin L [storagePath m, arch @ ''-'' @ Digest ref @ ''.tar'']) = None"
  then show "(let path = filepathJoin L [storagePath m, arch @ ''-'' @ Digest ref @ ''.tar''];
           (p1, w1) = GetExtensionImage_probe L m arch ref w;
           (p2, w2) = GetExtensionImage_probe L m arch ref' w1;
           w3 = GetExtensionImage_start arch ref path w2;
           w4 = GetExtensionImage_start arch ref' path w3
       in p1 = Wait path path \<and> p2 = Wait path path
          \<and> sf w4 = (sf w)(path \<mapsto> FetchExtensionImage arch ref path)
          \<and> execs (trace w4) = execs (trace w) @ [FetchExtensionImage arch ref path]
          \<and> (\<forall>r w5. sf_finish F path w4 = Some (r, w5) \<longrightarrow>
                sf w5 = sf w \<and> execs (trace w5) = execs (trace w) @ [FetchExtensionImage arch ref path]
                \<and> (r, store w5) = fetchExtensionImage F arch ref path (clock w) (store w)))"
    by (auto simp: GetExtensionImage_probe_cases GetExtensionImage_start_def Let_def DoChan_def
        sf_finish_def split: prod.splits)
next
  assume "Digest ref' = Digest ref
        \<and> statErr (store w) (filepathJoin L [storagePath m, arch @ ''-'' @ Digest ref @ ''.tar'']) = None"
  then show "GetExtensionImage_begin L m arch ref' w =
        (Return (Inr (filepathJoin L [storagePath m, arch @ ''-'' @ Digest ref @ ''.tar''])),
         w\<lparr>trace := trace w @ [EvStat (filepathJoin L [storagePath m, arch @ ''-'' @ Digest ref @ ''.tar''])]\<rparr>)"
    by (simp add: GetExtensionImage_begin_cases Let_def)
qed

theorem GetExtensionImage_keyed_by_arch_and_digest_witness:
  "Digest ex_ext_alias = Digest ex_ext \<and> TaggedReference ex_ext_alias \<noteq> TaggedReference ex_ext
   \<and> map_option fst (GetExtensionImage ex_fetchers ex_lib ex_manager None ''amd64'' ex_ext ex_cold)
       = Some (Inr ''/tmp/image-service/amd64-sha256:ab12.tar'')
   \<and> statErr (store ex_cold) ''/tmp/image-service/amd64-sha256:ab12.tar'' \<noteq> None
   \<and> sf ex_cold ''/tmp/image-service/amd64-sha256:ab12.tar'' = None
   \<and> execs (trace (GetExtensionImage_start ''amd64'' ex_ext_alias ''/tmp/image-service/amd64-sha256:ab12.tar''
          (GetExtensionImage_start ''amd64'' ex_ext ''/tmp/image-service/amd64-sha256:ab12.tar'' ex_both_probed)))
       = [FetchExtensionImage ''amd64'' ex_ext ''/tmp/image-service/amd64-sha256:ab12.tar'']
   \<and> sf (GetExtensionImage_start ''amd64'' ex_ext ''/tmp/image-service/amd64-sha256:ab12.tar'' ex_both_probed)
        ''/tmp/image-service/amd64-sha256:ab12.tar'' \<noteq> None
   \<and> GetExtensionImage_start ''amd64'' ex_ext_alias ''/tmp/image-service/amd64-sha256:ab12.tar''
        (GetExtensionImage_start ''amd64'' ex_ext ''/tmp/image-service/amd64-sha256:ab12.tar'' ex_both_probed)
       = GetExtensionImage_start ''amd64'' ex_ext ''/tmp/image-service/amd64-sha256:ab12.tar'' ex_both_probed
   \<and> statErr (store ex_exported) ''/tmp/image-service/amd64-sha256:ab12.tar'' = None
   \<and> fst (GetExtensionImage_begin ex_lib ex_manager ''amd64'' ex_ext_alias ex_exported)
       = Return (Inr ''/tmp/image-service/amd64-sha256:ab12.tar'')"
proof -
  let ?p = "''/tmp/image-service/amd64-sha256:ab12.tar''"
  let ?w' = "\<lparr>store = touch [?p] (store ex_cold), clock = 1000, sf = Map.empty,
             trace = [EvStat ?p, EvExec (FetchExtensionImage ''amd64'' ex_ext ?p)]\<rparr>"
  let ?wA = "GetExtensionImage_start ''amd64'' ex_ext ?p ex_both_probed"
  have d: "Digest ex_ext_alias = Digest ex_ext"
    and n: "TaggedReference ex_ext_alias \<noteq> TaggedReference ex_ext"
    and j: "filepathJoin ex_lib [storagePath ex_manager, ''amd64'' @ ''-'' @ Digest ex_ext @ ''.tar''] = ?p"
    and s: "statErr (store ex_cold) ?p \<noteq> None"
    and i: "sf ex_cold ?p = None"
    and e: "execs (trace ex_cold) = []"
    and s': "statErr (store ex_exported) ?p = None"
    by (simp_all add: exd execs_def)
  have g: "GetExtensionImage ex_fetchers ex_lib ex_manager None ''amd64'' ex_ext ex_cold
      = Some (Inr ?p, ?w')"
    by (simp add: GetExtensionImage_def GetExtensionImage_begin_cases GetExtensionImage_resume_def
        op_defs exd)
  have p1: "GetExtensionImage_probe ex_lib ex_manager ''amd64'' ex_ext ex_cold
      = (Wait ?p ?p, ex_cold\<lparr>trace := [EvStat ?p]\<rparr>)"
    and p2: "GetExtensionImage_probe ex_lib ex_manager ''amd64'' ex_ext_alias (ex_cold\<lparr>trace := [EvStat ?p]\<rparr>)
      = (Wait ?p ?p, ex_both_probed)"
    by (simp_all add: GetExtensionImage_probe_def op_defs exd)
  have a: "sf ?wA ?p \<noteq> None"
    by (simp add: GetExtensionImage_start_def DoChan_in_flight)
  note t = GetExtensionImage_keyed_by_arch_and_digest [of ex_fetchers ex_lib ex_manager None "''amd64''"
      ex_ext ex_cold ?p ?w' ex_ext_alias]
  note u = GetExtensionImage_keyed_by_arch_and_digest [of ex_fetchers ex_lib ex_manager None "''amd64''"
      ex_ext ?wA ?p ?w' ex_ext_alias]
  note v = GetExtensionImage_keyed_by_arch_and_digest [of ex_fetchers ex_lib ex_manager None "''amd64''"
      ex_ext ex_exported ?p ?w' ex_ext_alias]
  from t [THEN conjunct1] g
  have c0: "?p = filepathJoin ex_lib [storagePath ex_manager, ''amd64'' @ ''-'' @ Digest ex_ext @ ''.tar'']"
    by simp
  from g have g': "map_option fst (GetExtensionImage ex_fetchers ex_lib ex_manager None ''amd64'' ex_ext ex_cold)
       = Some (Inr ?p)"
    by simp
  from d j s i e p1 p2 t [THEN conjunct2, THEN conjunct2, THEN conjunct2, THEN conjunct1]
  have c1: "execs (trace (GetExtensionImage_start ''amd64'' ex_ext_alias ?p ?wA))
       = [FetchExtensionImage ''amd64'' ex_ext ?p]"
    by (simp add: Let_def case_prod_beta)
  from j a u [THEN conjunct2, THEN conjunct2, THEN conjunct1]
  have c2: "GetExtensionImage_start ''amd64'' ex_ext_alias ?p ?wA = ?wA"
    by simp
  from d j s' v [THEN conjunct2, THEN conjunct2, THEN conjunct2, THEN conjunct2]
  have c3: "fst (GetExtensionImage_begin ex_lib ex_manager ''amd64'' ex_ext_alias ex_exported) = Return (Inr ?p)"
    by simp
  show ?thesis by (intro conjI d n g' s i c1 a c2 s' c3)
qed

text \<open>
  Claim C10. \<open>GetExtensionImage\<close> never returns the not-found error. When the
  tarball's stat succeeds it returns the path after that one stat; when the export ends with
  a nil error it returns the path in the world the export left, without a further stat.
\<close>

theorem GetExtensionImage_never_not_found:
  "(GetExtensionImage F L m cancel arch ref w = Some (r, w') \<longrightarrow> (\<forall>e. r \<noteq> Inl (NotFound e)))
   \<and> (statErr (store w) (filepathJoin L [storagePath m, arch @ ''-'' @ Digest ref @ ''.tar'']) = None \<longrightarrow>
      GetExtensionImage F L m cancel arch ref w =
        Some (Inr (filepathJoin L [storagePath m, arch @ ''-'' @ Digest ref @ ''.tar'']),
              w\<lparr>trace := trace w @ [EvStat (filepathJoin L [storagePath m, arch @ ''-'' @ Digest ref @ ''.tar''])]\<rparr>))
   \<and> (statErr (store w) (filepathJoin L [storagePath m, arch @ ''-'' @ Digest ref @ ''.tar'']) \<noteq> None
        \<and> sf_finish F (filepathJoin L [storagePath m, arch @ ''-'' @ Digest ref @ ''.tar''])
             (snd (GetExtensionImage_begin L m arch ref w)) = Some (None, w2) \<longrightarrow>
      GetExtensionImage F L m None arch ref w =
        Some (Inr (filepathJoin L [storagePath m, arch @ ''-'' @ Digest ref @ ''.tar'']), w2))"
proof (intro conjI impI)
  assume "GetExtensionImage F L m cancel arch ref w = Some (r, w')"
  from GetExtensionImage_result [OF this] show "\<forall>e. r \<noteq> Inl (NotFound e)"
    by auto
next
  assume "statErr (store w) (filepathJoin L [storagePath m, arch @ ''-'' @ Digest ref @ ''.tar'']) = None"
  then show "GetExtensionImage F L m cancel arch ref w =
        Some (Inr (filepathJoin L [storagePath m, arch @ ''-'' @ Digest ref @ ''.tar'']),
              w\<lparr>trace := trace w @ [EvStat (filepathJoin L [storagePath m, arch @ ''-'' @ Digest ref @ ''.tar''])]\<rparr>)"
    by (simp add: GetExtensionImage_def GetExtensionImage_begin_cases Let_def)
next
  assume "statErr (store w) (filepathJoin L [storagePath m, arch @ ''-'' @ Digest ref @ ''.tar'']) \<noteq> None
        \<and> sf_finish F (filepathJoin L [storagePath m, arch @ ''-'' @ Digest ref @ ''.tar''])
             (snd (GetExtensionImage_begin L m arch ref w)) = Some (None, w2)"
  then show "GetExtensionImage F L m None arch ref w =
        Some (Inr (filepathJoin L [storagePath m, arch @ ''-'' @ Digest ref @ ''.tar'']), w2)"
    by (auto simp: GetExtensionImage_def GetExtensionImage_begin_cases Let_def await_def
        GetExtensionImage_resume_def)
qed

theorem GetExtensionImage_never_not_found_witness:
  "GetExtensionImage ex_idle ex_lib ex_manager None ''amd64'' ex_ext ex_cold
     = Some (Inr ''/tmp/image-service/amd64-sha256:ab12.tar'',
             ex_cold\<lparr>trace := [EvStat ''/tmp/image-service/amd64-sha256:ab12.tar'',
                                EvExec (FetchExtensionImage ''amd64'' ex_ext ''/tmp/image-service/amd64-sha256:ab12.tar'')]\<rparr>)
   \<and> statErr (store ex_cold) ''/tmp/image-service/amd64-sha256:ab12.tar'' = Some 2
   \<and> Inr ''/tmp/image-service/amd64-sha256:ab12.tar'' \<noteq> (Inl (NotFound (StatError ''/tmp/image-service/amd64-sha256:ab12.tar'' 2)) :: error + string)
   \<and> statErr (store (ex_cold\<lparr>store := touch [''/tmp/image-service/amd64-sha256:ab12.tar''] (store ex_cold)\<rparr>))
        ''/tmp/image-service/amd64-sha256:ab12.tar'' = None
   \<and> map_option fst (GetExtensionImage ex_failing ex_lib ex_manager (Some Canceled) ''amd64'' ex_ext
        (ex_cold\<lparr>store := touch [''/tmp/image-service/amd64-sha256:ab12.tar''] (store ex_cold)\<rparr>))
       = Some (Inr ''/tmp/image-service/amd64-sha256:ab12.tar'')"
proof -
  let ?p = "''/tmp/image-service/amd64-sha256:ab12.tar''"
  let ?w2 = "ex_cold\<lparr>trace := [EvStat ?p, EvExec (FetchExtensionImage ''amd64'' ex_ext ?p)]\<rparr>"
  let ?w3 = "ex_cold\<lparr>store := touch [?p] (store ex_cold)\<rparr>"
  have j: "filepathJoin ex_lib [storagePath ex_manager, ''amd64'' @ ''-'' @ Digest ex_ext @ ''.tar''] = ?p"
    and s: "statErr (store ex_cold) ?p = Some 2"
    and s3: "statErr (store ?w3) ?p = None"
    by (simp_all add: exd)
  have f: "sf_finish ex_idle ?p (snd (GetExtensionImage_begin ex_lib ex_manager ''amd64'' ex_ext ex_cold))
      = Some (None, ?w2)"
    by (simp add: GetExtensionImage_begin_def op_defs exd)
  note t = GetExtensionImage_never_not_found [of ex_idle ex_lib ex_manager None "''amd64''" ex_ext ex_cold
      "Inr ?p" ?w2 ?w2]
  note u = GetExtensionImage_never_not_found [of ex_failing ex_lib ex_manager "Some Canceled" "''amd64''" ex_ext ?w3]
  from t j s f have g: "GetExtensionImage ex_idle ex_lib ex_manager None ''amd64'' ex_ext ex_cold = Some (Inr ?p, ?w2)"
    by simp
  with t have n: "Inr ?p \<noteq> (Inl (NotFound (StatError ?p 2)) :: error + string)"
    by blast
  from u j s3 have h: "map_option fst (GetExtensionImage ex_failing ex_lib ex_manager (Some Canceled) ''amd64'' ex_ext ?w3)
       = Some (Inr ?p)"
    by simp
  from g s n s3 h show ?thesis by blast
qed

subsection \<open>Get: the artifact path\<close>

text \<open>
  Claim C6. A successful \<open>Get\<close> returns the join of the storage path, the tag
  \<open>v\<close> plus the printed version, the architecture and the kind, a file that exists at
  that moment. When the tag directory exists, or the fetch has just finished with no
  error, and the stat of that file fails, \<open>Get\<close> fails with the not-found error that
  wraps the stat error.
\<close>

theorem Get_returns_artifact_path:
  "(Get F L m cancel vs arch kind w = Some (Inr p, w') \<longrightarrow>
      (\<exists>v. semverParse L vs = Inr v
         \<and> p = filepathJoin L [storagePath m, ''v'' @ versionStr L v, arch, kind]
         \<and> statErr (store w') p = None))
   \<and> (semverParse L vs = Inr v \<and> \<not> versionLT L v (MinVersion (options m))
        \<and> statErr (store w) (filepathJoin L [storagePath m, ''v'' @ versionStr L v]) = None
        \<and> statErr (store w) (filepathJoin L [storagePath m, ''v'' @ versionStr L v, arch, kind]) = Some errno \<longrightarrow>
      map_option fst (Get F L m cancel vs arch kind w) =
        Some (Inl (NotFound (StatError (filepathJoin L [storagePath m, ''v'' @ versionStr L v, arch, kind]) errno))))
   \<and> (semverParse L vs = Inr v \<and> \<not> versionLT L v (MinVersion (options m))
        \<and> statErr (store w) (filepathJoin L [storagePath m, ''v'' @ versionStr L v]) \<noteq> None
        \<and> sf_finish F (''v'' @ versionStr L v) (snd (Get_begin L m vs arch kind w)) = Some (None, w2)
        \<and> statErr (store w2) (filepathJoin L [storagePath m, ''v'' @ versionStr L v, arch, kind]) = Some errno \<longrightarrow>
      map_option fst (Get F L m None vs arch kind w) =
        Some (Inl (NotFound (StatError (filepathJoin L [storagePath m, ''v'' @ versionStr L v, arch, kind]) errno))))"
proof (intro conjI impI)
  assume a: "Get F L m cancel vs arch kind w = Some (Inr p, w')"
  show "\<exists>v. semverParse L vs = Inr v
         \<and> p = filepathJoin L [storagePath m, ''v'' @ versionStr L v, arch, kind]
         \<and> statErr (store w') p = None"
  proof (cases "semverParse L vs")
    case (Inl e)
    with a show ?thesis by (simp add: Get_def Get_begin_def)
  next
    case (Inr v)
    let ?dir = "filepathJoin L [storagePath m, ''v'' @ versionStr L v]"
    let ?path = "filepathJoin L [storagePath m, ''v'' @ versionStr L v, arch, kind]"
    from a Inr have l: "\<not> versionLT L v (MinVersion (options m))"
      by (auto simp: Get_def Get_begin_def)
    have "p = ?path \<and> statErr (store w') p = None"
    proof (cases "statErr (store w) ?dir")
      case None
      with a Inr l show ?thesis
        by (auto simp: Get_def Get_begin_def Get_path_cases osStat_def Let_def split: option.splits)
    next
      case (Some e0)
      note b = Get_begin_miss [OF Inr l Some]
      show ?thesis
      proof (cases cancel)
        case (Some ce)
        with a b show ?thesis by (simp add: Get_def await_def Get_resume_def)
      next
        case None
        with a b obtain r w2 where f: "sf_finish F (''v'' @ versionStr L v)
            (snd (Get_begin L m vs arch kind w)) = Some (r, w2)"
          by (cases "sf_finish F (''v'' @ versionStr L v) (snd (Get_begin L m vs arch kind w))")
            (auto simp: Get_def await_def)
        with a None show ?thesis unfolding b
          by (cases r) (auto simp: Get_def b await_def Get_resume_def Get_path_cases split: option.splits)
      qed
    qed
    with Inr show ?thesis by blast
  qed
next
  assume "semverParse L vs = Inr v \<and> \<not> versionLT L v (MinVersion (options m))
        \<and> statErr (store w) (filepathJoin L [storagePath m, ''v'' @ versionStr L v]) = None
        \<and> statErr (store w) (filepathJoin L [storagePath m, ''v'' @ versionStr L v, arch, kind]) = Some errno"
  then show "map_option fst (Get F L m cancel vs arch kind w) =
        Some (Inl (NotFound (StatError (filepathJoin L [storagePath m, ''v'' @ versionStr L v, arch, kind]) errno)))"
    by (simp add: Get_def Get_begin_def Get_path_cases osStat_def Let_def)
next
  assume h: "semverParse L vs = Inr v \<and> \<not> versionLT L v (MinVersion (options m))
        \<and> statErr (store w) (filepathJoin L [storagePath m, ''v'' @ versionStr L v]) \<noteq> None
        \<and> sf_finish F (''v'' @ versionStr L v) (snd (Get_begin L m vs arch kind w)) = Some (None, w2)
        \<and> statErr (store w2) (filepathJoin L [storagePath m, ''v'' @ versionStr L v, arch, kind]) = Some errno"
  then obtain e0 where e0: "statErr (store w) (filepathJoin L [storagePath m, ''v'' @ versionStr L v]) = Some e0"
    by blast
  from h have p: "semverParse L vs = Inr v" and l: "\<not> versionLT L v (MinVersion (options m))"
    by simp_all
  from h show "map_option fst (Get F L m None vs arch kind w) =
        Some (Inl (NotFound (StatError (filepathJoin L [storagePath m, ''v'' @ versionStr L v, arch, kind]) errno)))"
    unfolding Get_begin_miss [OF p l e0]
    by (simp add: Get_def Get_begin_miss [OF p l e0] await_def Get_resume_def Get_path_cases)
qed

theorem Get_returns_artifact_path_witness:
  "Get ex_fetchers ex_lib ex_manager None ''1.6.0'' ''amd64'' ''installer'' ex_cold
     = Some (Inr ''/tmp/image-service/v1.6.0/amd64/installer'',
             ex_extracted\<lparr>trace := [EvStat ''/tmp/image-service/v1.6.0'', EvExec (FetchImager ''v1.6.0''),
                                     EvStat ''/tmp/image-service/v1.6.0/amd64/installer'']\<rparr>)
   \<and> semverParse ex_lib ''1.6.0'' = Inr (1, 6, 0)
   \<and> ''/tmp/image-service/v1.6.0/amd64/installer''
       = filepathJoin ex_lib [storagePath ex_manager, ''v'' @ versionStr ex_lib (1, 6, 0), ''amd64'', ''installer'']
   \<and> statErr (store ex_extracted) ''/tmp/image-service/v1.6.0'' = None
   \<and> statErr (store ex_extracted) ''/tmp/image-service/v1.6.0/arm64/kernel'' = Some 2
   \<and> map_option fst (Get ex_fetchers ex_lib ex_manager (Some Canceled) ''1.6.0'' ''arm64'' ''kernel'' ex_extracted)
       = Some (Inl (NotFound (StatError ''/tmp/image-service/v1.6.0/arm64/kernel'' 2)))
   \<and> statErr (store ex_cold) ''/tmp/image-service/v1.6.0'' \<noteq> None
   \<and> map_option fst (Get ex_fetchers ex_lib ex_manager None ''1.6.0'' ''arm64'' ''kernel'' ex_cold)
       = Some (Inl (NotFound (StatError ''/tmp/image-service/v1.6.0/arm64/kernel'' 2)))"
proof -
  let ?w' = "ex_extracted\<lparr>trace := [EvStat ''/tmp/image-service/v1.6.0'', EvExec (FetchImager ''v1.6.0''),
                                     EvStat ''/tmp/image-service/v1.6.0/amd64/installer'']\<rparr>"
  have g: "Get ex_fetchers ex_lib ex_manager None ''1.6.0'' ''amd64'' ''installer'' ex_cold
     = Some (Inr ''/tmp/image-service/v1.6.0/amd64/installer'', ?w')"
    by (simp add: Get_def Get_begin_def Get_resume_def Get_path_def op_defs exd)
  have p: "semverParse ex_lib ''1.6.0'' = Inr (1, 6, 0)"
    and l: "\<not> versionLT ex_lib (1, 6, 0) (MinVersion (options ex_manager))"
    and j: "filepathJoin ex_lib [storagePath ex_manager, ''v'' @ versionStr ex_lib (1, 6, 0)]
       = ''/tmp/image-service/v1.6.0''"
    and j2: "filepathJoin ex_lib [storagePath ex_manager, ''v'' @ versionStr ex_lib (1, 6, 0), ''amd64'', ''installer'']
       = ''/tmp/image-service/v1.6.0/amd64/installer''"
    and j3: "filepathJoin ex_lib [storagePath ex_manager, ''v'' @ versionStr ex_lib (1, 6, 0), ''arm64'', ''kernel'']
       = ''/tmp/image-service/v1.6.0/arm64/kernel''"
    by (simp_all add: exd)
  have s1: "statErr (store ex_extracted) ''/tmp/image-service/v1.6.0'' = None"
    and s2: "statErr (store ex_extracted) ''/tmp/image-service/v1.6.0/arm64/kernel'' = Some 2"
    and s3: "statErr (store ex_cold) ''/tmp/image-service/v1.6.0'' \<noteq> None"
    by (simp_all add: exd)
  have f: "sf_finish ex_fetchers (''v'' @ versionStr ex_lib (1, 6, 0))
      (snd (Get_begin ex_lib ex_manager ''1.6.0'' ''arm64'' ''kernel'' ex_cold))
      = Some (None, ex_extracted\<lparr>trace := [EvStat ''/tmp/image-service/v1.6.0'', EvExec (FetchImager ''v1.6.0'')]\<rparr>)"
    by (simp add: Get_begin_def op_defs exd)
  note t1 = Get_returns_artifact_path [of ex_fetchers ex_lib ex_manager None "''1.6.0''" "''amd64''"
      "''installer''" ex_cold "''/tmp/image-service/v1.6.0/amd64/installer''" ?w' "(1, 6, 0)"]
  note t2 = Get_returns_artifact_path [of ex_fetchers ex_lib ex_manager "Some Canceled" "''1.6.0''" "''arm64''"
      "''kernel''" ex_extracted _ _ "(1, 6, 0)" 2]
  note t3 = Get_returns_artifact_path [of ex_fetchers ex_lib ex_manager None "''1.6.0''" "''arm64''"
      "''kernel''" ex_cold _ _ "(1, 6, 0)" 2
      "ex_extracted\<lparr>trace := [EvStat ''/tmp/image-service/v1.6.0'', EvExec (FetchImager ''v1.6.0'')]\<rparr>"]
  from t2 p l j j3 s1 s2
  have n1: "map_option fst (Get ex_fetchers ex_lib ex_manager (Some Canceled) ''1.6.0'' ''arm64'' ''kernel'' ex_extracted)
       = Some (Inl (NotFound (StatError ''/tmp/image-service/v1.6.0/arm64/kernel'' 2)))"
    by simp
  from t3 p l j j3 s3 f s2
  have n2: "map_option fst (Get ex_fetchers ex_lib ex_manager None ''1.6.0'' ''arm64'' ''kernel'' ex_cold)
       = Some (Inl (NotFound (StatError ''/tmp/image-service/v1.6.0/arm64/kernel'' 2)))"
    by simp
  from t1 g have "\<exists>v. semverParse ex_lib ''1.6.0'' = Inr v
      \<and> ''/tmp/image-service/v1.6.0/amd64/installer''
          = filepathJoin ex_lib [storagePath ex_manager, ''v'' @ versionStr ex_lib v, ''amd64'', ''installer'']"
    by blast
  with p have "''/tmp/image-service/v1.6.0/amd64/installer''
       = filepathJoin ex_lib [storagePath ex_manager, ''v'' @ versionStr ex_lib (1, 6, 0), ''amd64'', ''installer'']"
    by auto
  with g p s1 s2 s3 n1 n2 show ?thesis by blast
qed

text \<open>
  Claim C8. When the tag directory of the requested version exists, \<open>Get\<close> returns in
  its first half, whatever the context: the \<open>select\<close> is never reached, the result is
  not the context's error, and the coordinator is not touched.
\<close>

theorem Get_directory_hit_never_cancelled:
  assumes "semverParse L vs = Inr v"
    and "statErr (store w) (filepathJoin L [storagePath m, ''v'' @ versionStr L v]) = None"
  shows "\<exists>r w'. Get_begin L m vs arch kind w = (Return r, w')
           \<and> Get F L m cancel vs arch kind w = Some (r, w')
           \<and> (\<forall>ce. r \<noteq> Inl (Cancelled ce))
           \<and> sf w' = sf w \<and> execs (trace w') = execs (trace w)"
  using assms
  by (simp add: Get_def Get_begin_def Get_path_cases osStat_def Let_def execs_def split: option.splits)

theorem Get_directory_hit_never_cancelled_witness:
  "semverParse ex_lib ''1.6.0'' = Inr (1, 6, 0)
   \<and> statErr (store ex_extracted)
       (filepathJoin ex_lib [storagePath ex_manager, ''v'' @ versionStr ex_lib (1, 6, 0)]) = None
   \<and> map_option fst (Get ex_failing ex_lib ex_manager (Some Canceled) ''1.6.0'' ''amd64'' ''installer'' ex_extracted)
       = Some (Inr ''/tmp/image-service/v1.6.0/amd64/installer'')"
proof -
  have p: "semverParse ex_lib ''1.6.0'' = Inr (1, 6, 0)"
    and s: "statErr (store ex_extracted)
       (filepathJoin ex_lib [storagePath ex_manager, ''v'' @ versionStr ex_lib (1, 6, 0)]) = None"
    by (simp_all add: exd)
  from Get_directory_hit_never_cancelled [OF p s, of "''amd64''" "''installer''" ex_failing "Some Canceled"]
  obtain r w' where b: "Get_begin ex_lib ex_manager ''1.6.0'' ''amd64'' ''installer'' ex_extracted = (Return r, w')"
    and g: "Get ex_failing ex_lib ex_manager (Some Canceled) ''1.6.0'' ''amd64'' ''installer'' ex_extracted = Some (r, w')"
    by blast
  have "fst (Get_begin ex_lib ex_manager ''1.6.0'' ''amd64'' ''installer'' ex_extracted)
      = Return (Inr ''/tmp/image-service/v1.6.0/amd64/installer'')"
    by (simp add: Get_begin_def Get_path_def op_defs exd)
  with b have "r = Inr ''/tmp/image-service/v1.6.0/amd64/installer''" by simp
  with g p s show ?thesis by simp
qed

subsection \<open>The installer image reference\<close>

text \<open>
  Claim C7. \<open>GetInstallerImageRef\<close> only formats: for every version string, parsable or
  not, the result is the reference built from the configured registry, the installer
  repository and the tag \<open>v\<close> followed by the string. It takes no world and returns no
  error, and no other field of the manager has a part in it.
\<close>

theorem GetInstallerImageRef_formats_only:
  "GetInstallerImageRef L m versionString
     = repoTagString L (imageRegistry m) (InstallerImage L) (''v'' @ versionString)
   \<and> GetInstallerImageRef L (m\<lparr>options := opts, storagePath := sp, flavorsPath := fp\<rparr>) versionString
     = GetInstallerImageRef L m versionString
   \<and> GetInstallerImageRef ex_lib ex_manager ''1.6.0'' = ''ghcr.io/siderolabs/installer:v1.6.0''
   \<and> GetInstallerImageRef ex_lib ex_manager ''latest?'' = ''ghcr.io/siderolabs/installer:vlatest?''"
  by (simp add: GetInstallerImageRef_def ex_lib_def ex_manager_def)

subsection \<open>Further properties\<close>

lemma await_in_flight:
  "\<exists>wk w'. await F cancel key (DoChan key c w) = Some (wk, w')"
proof (cases cancel)
  case None
  obtain c' where "sf (DoChan key c w) key = Some c'"
    using DoChan_in_flight [of key c w] by blast
  with None show ?thesis
    by (simp add: await_def sf_finish_def Let_def split: prod.splits)
next
  case (Some ce)
  then show ?thesis by (simp add: await_def)
qed

text \<open>
  Property X1. Every operation returns for a caller that is alone: after \<open>DoChan\<close> the
  key is in flight, so the \<open>select\<close> has a result to receive or a context to give up
  on.
\<close>

theorem calls_return:
  "(\<exists>r w'. Get F L m cancel vs arch kind w = Some (r, w'))
   \<and> (\<exists>r w'. GetTalosVersions F m cancel w = Some (r, w'))
   \<and> (\<exists>r w'. GetOfficialExtensions F L m cancel vs w = Some (r, w'))
   \<and> (\<exists>r w'. GetExtensionImage F L m cancel arch ref w = Some (r, w'))"
proof (intro conjI)
  show "\<exists>r w'. Get F L m cancel vs arch kind w = Some (r, w')"
  proof (cases "Get_begin L m vs arch kind w")
    case (Pair ph w1)
    show ?thesis
    proof (cases ph)
      case (Return r)
      with Pair show ?thesis by (simp add: Get_def)
    next
      case (Wait key locals)
      with Pair obtain c w0 where "w1 = DoChan key c w0"
        by (auto simp: Get_begin_def Let_def osStat_def Get_path_cases split: sum.splits if_splits option.splits)
      with await_in_flight [of F cancel key c w0] Pair Wait show ?thesis
        by (auto simp: Get_def)
    qed
  qed
next
  show "\<exists>r w'. GetTalosVersions F m cancel w = Some (r, w')"
    using await_in_flight [of F cancel "''talos-versions''" FetchTalosVersions w]
    by (auto simp: GetTalosVersions_def GetTalosVersions_begin_def Let_def)
next
  show "\<exists>r w'. GetOfficialExtensions F L m cancel vs w = Some (r, w')"
  proof (cases "GetOfficialExtensions_begin L m vs w")
    case (Pair ph w1)
    show ?thesis
    proof (cases ph)
      case (Return r)
      with Pair show ?thesis by (simp add: GetOfficialExtensions_def)
    next
      case (Wait key locals)
      with Pair obtain c where "w1 = DoChan key c w"
        by (auto simp: GetOfficialExtensions_begin_def Let_def split: sum.splits if_splits option.splits)
      with await_in_flight [of F cancel key c w] Pair Wait show ?thesis
        by (auto simp: GetOfficialExtensions_def)
    qed
  qed
next
  show "\<exists>r w'. GetExtensionImage F L m cancel arch ref w = Some (r, w')"
    using await_in_flight [of F cancel "filepathJoin L [storagePath m, arch @ ''-'' @ Digest ref @ ''.tar'']"
        "FetchExtensionImage arch ref (filepathJoin L [storagePath m, arch @ ''-'' @ Digest ref @ ''.tar''])"
        "w\<lparr>trace := trace w @ [EvStat (filepathJoin L [storagePath m, arch @ ''-'' @ Digest ref @ ''.tar''])]\<rparr>"]
    by (auto simp: GetExtensionImage_def GetExtensionImage_begin_cases Let_def)
qed

text \<open>
  Property X2. \<open>GetTalosVersions\<close>, \<open>GetOfficialExtensions\<close> and
  \<open>GetExtensionImage\<close> hand a failed fetch's own error to the caller.
\<close>

theorem siblings_return_fetch_error:
  "GetTalosVersions_resume (Result (Some e)) w = Inl (FetchError e)
   \<and> GetOfficialExtensions_resume tag (Result (Some e)) w = Inl (FetchError e)
   \<and> GetExtensionImage_resume tarballPath (Result (Some e)) = Inl (FetchError e)"
  by (simp add: GetTalosVersions_resume_def GetOfficialExtensions_resume_def GetExtensionImage_resume_def)

text \<open>
  Property X3. A version string that does not parse makes \<open>Get\<close> and
  \<open>GetOfficialExtensions\<close> fail with the wrapped parse error, the world unchanged.
\<close>

theorem parse_failure_before_io:
  "(semverParse L vs = Inl e \<longrightarrow> Get F L m cancel vs arch kind w = Some (Inl (ParseError e), w))
   \<and> (semverParseTolerant L vs = Inl e' \<longrightarrow>
        GetOfficialExtensions F L m cancel vs w = Some (Inl (ParseError e'), w))"
  by (simp add: Get_def Get_begin_def GetOfficialExtensions_def GetOfficialExtensions_begin_def)

theorem parse_failure_before_io_witness:
  "semverParse ex_lib ''one.six'' = Inl ''No Major.Minor.Patch elements found''
   \<and> Get ex_fetchers ex_lib ex_manager None ''one.six'' ''amd64'' ''installer'' ex_cold
       = Some (Inl (ParseError ''No Major.Minor.Patch elements found''), ex_cold)
   \<and> semverParseTolerant ex_lib ''one.six'' = Inl ''No Major.Minor.Patch elements found''
   \<and> GetOfficialExtensions ex_fetchers ex_lib ex_manager None ''one.six'' ex_cold
       = Some (Inl (ParseError ''No Major.Minor.Patch elements found''), ex_cold)"
  using parse_failure_before_io [of ex_lib "''one.six''" "''No Major.Minor.Patch elements found''"
      ex_fetchers ex_manager None "''amd64''" "''installer''" ex_cold "''No Major.Minor.Patch elements found''"]
  by (simp add: ex_lib_def ex_parse_def ex_parse_tolerant_def)

text \<open>
  Property X4. A \<open>Get\<close> whose context ends during the wait returns the context's
  error and leaves the fetch in flight and the store untouched; a \<open>Get\<close> of the same
  version that runs its first half next, while that fetch is in flight, waits on it and
  starts none of its own.
\<close>

theorem cancelled_wait_leaves_fetch_running:
  assumes "semverParse L vs = Inr v" and "\<not> versionLT L v (MinVersion (options m))"
    and "statErr (store w) (filepathJoin L [storagePath m, ''v'' @ versionStr L v]) \<noteq> None"
  shows "\<exists>w'. Get F L m (Some ce) vs arch kind w = Some (Inl (Cancelled ce), w')
           \<and> store w' = store w
           \<and> sf w' (''v'' @ versionStr L v) \<noteq> None
           \<and> (\<forall>arch' kind'. \<exists>locals w''.
                 Get_begin L m vs arch' kind' w' = (Wait (''v'' @ versionStr L v) locals, w'')
                 \<and> sf w'' = sf w' \<and> execs (trace w'') = execs (trace w'))"
proof -
  let ?tag = "''v'' @ versionStr L v"
  let ?dir = "filepathJoin L [storagePath m, ?tag]"
  from assms(3) obtain errno where e: "statErr (store w) ?dir = Some errno" by blast
  let ?w' = "DoChan ?tag (FetchImager ?tag) (w\<lparr>trace := trace w @ [EvStat ?dir]\<rparr>)"
  have g: "Get F L m (Some ce) vs arch kind w = Some (Inl (Cancelled ce), ?w')"
    by (simp add: Get_def Get_begin_miss [OF assms(1,2) e] await_def Get_resume_def)
  have s: "store ?w' = store w" by simp
  have i: "sf ?w' ?tag \<noteq> None" by (rule DoChan_in_flight)
  then obtain c where c: "sf ?w' ?tag = Some c" by blast
  have e': "statErr (store ?w') ?dir = Some errno" using e by simp
  have "\<exists>locals w''. Get_begin L m vs arch' kind' ?w' = (Wait ?tag locals, w'')
                 \<and> sf w'' = sf ?w' \<and> execs (trace w'') = execs (trace ?w')" for arch' kind'
  proof -
    have j: "sf (?w'\<lparr>trace := trace ?w' @ [EvStat ?dir]\<rparr>) ?tag = Some c"
      using c by simp
    show ?thesis
      unfolding Get_begin_miss [OF assms(1,2) e'] DoChan_joined [OF j]
      by simp
  qed
  with g s i show ?thesis by blast
qed

theorem cancelled_wait_leaves_fetch_running_witness:
  "semverParse ex_lib ''1.6.0'' = Inr (1, 6, 0)
   \<and> \<not> versionLT ex_lib (1, 6, 0) (MinVersion (options ex_manager))
   \<and> statErr (store ex_cold) (filepathJoin ex_lib [storagePath ex_manager, ''v'' @ versionStr ex_lib (1, 6, 0)]) \<noteq> None
   \<and> map_option fst (Get ex_fetchers ex_lib ex_manager (Some DeadlineExceeded) ''1.6.0'' ''amd64'' ''installer'' ex_cold)
       = Some (Inl (Cancelled DeadlineExceeded))"
proof -
  have p: "semverParse ex_lib ''1.6.0'' = Inr (1, 6, 0)"
    and l: "\<not> versionLT ex_lib (1, 6, 0) (MinVersion (options ex_manager))"
    and s: "statErr (store ex_cold) (filepathJoin ex_lib [storagePath ex_manager, ''v'' @ versionStr ex_lib (1, 6, 0)]) \<noteq> None"
    by (simp_all add: exd)
  from cancelled_wait_leaves_fetch_running [OF p l s, of ex_fetchers DeadlineExceeded "''amd64''" "''installer''"]
  obtain w' where "Get ex_fetchers ex_lib ex_manager (Some DeadlineExceeded) ''1.6.0'' ''amd64'' ''installer'' ex_cold
      = Some (Inl (Cancelled DeadlineExceeded), w')"
    by blast
  with p l s show ?thesis by simp
qed

end
